theory Spec2Isabelle
  imports Complex_Main
begin

section \<open>The classifier evaluation harness of \<^verbatim>\<open>classifier.py\<close>\<close>

text \<open>
  \<^verbatim>\<open>classifier.py\<close> is glue around a machine-learning library: a registry of predictor
  instances and a class \<^verbatim>\<open>Classifier\<close> with the methods \<^verbatim>\<open>evaluate\<close>,
  \<^verbatim>\<open>cross_validate\<close> and \<^verbatim>\<open>train\<close>.  The library itself (predictors, the stratified
  fold planner, the metric functions) is not part of the repository; it enters the model
  as a record of functions, and every theorem holds for all such records.

  Conventions of the embedding:
  \<^item> a Python exception is a value \<open>Inl e\<close> of a sum type, a normal return is \<open>Inr v\<close>;
  \<^item> Python floats are modelled as real numbers (rounding is not modelled);
  \<^item> the object \<^verbatim>\<open>self\<close> is a record that each method takes and returns;
  \<^item> what a method logs or plots is returned as a list of events.
\<close>

subsection \<open>Exceptions\<close>

datatype error =
    KeyError string
  | IndexError
  | ZeroDivisionError
  | ValueError
  | LibraryError string

definition rbind :: "error + 'a \<Rightarrow> ('a \<Rightarrow> error + 'b) \<Rightarrow> error + 'b" where
  "rbind m f = (case m of Inl e \<Rightarrow> Inl e | Inr v \<Rightarrow> f v)"

subsection \<open>Arrays and indexing\<close>

type_synonym features = "real list list"
type_synonym labels = "int list"
type_synonym fold = "int list \<times> int list"

text \<open>Indexing one element: a negative index counts from the end, an index out of
  range raises \<^verbatim>\<open>IndexError\<close>.\<close>

definition np_get :: "'a list \<Rightarrow> int \<Rightarrow> error + 'a" where
  "np_get xs i =
     (let n = int (length xs); j = (if i < 0 then i + n else i)
      in if 0 \<le> j \<and> j < n then Inr (xs ! nat j) else Inl IndexError)"

text \<open>Indexing with a sequence of indices, \<^verbatim>\<open>a[index]\<close>.\<close>

fun np_take :: "'a list \<Rightarrow> int list \<Rightarrow> error + 'a list" where
  "np_take xs [] = Inr []"
| "np_take xs (i # idx) =
     rbind (np_get xs i) (\<lambda>v. rbind (np_take xs idx) (\<lambda>vs. Inr (v # vs)))"

subsection \<open>The library\<close>

datatype pyval = PyStr string | PyBool bool | PyInt int | PyFloat real

text \<open>A constructor call of the library, with its keyword arguments.\<close>

datatype estimator =
    LogisticRegression "(string \<times> pyval) list"
  | SVC "(string \<times> pyval) list"
  | MLPClassifier "(string \<times> pyval) list"
  | RandomForestClassifier "(string \<times> pyval) list"

datatype average = Binary | Macro

record StratifiedKFold =
  n_splits :: int
  shuffle :: bool

text \<open>
  The functions of the library that the module calls.  \<open>'p\<close> is the type of predictor
  objects.  \<open>fit\<close> returns the object after fitting; its data arguments are optional
  because \<^verbatim>\<open>train\<close> can hand \<^verbatim>\<open>None\<close> through.  The metric functions take the
  \<^verbatim>\<open>average\<close> keyword (\<open>Binary\<close> is the library's default).
\<close>

record 'p sklearn =
  construct :: "estimator \<Rightarrow> 'p"
  fit :: "'p \<Rightarrow> features option \<Rightarrow> labels option \<Rightarrow> error + 'p"
  predict :: "'p \<Rightarrow> features \<Rightarrow> error + labels"
  predict_proba :: "'p \<Rightarrow> features \<Rightarrow> error + real list list"
  kfold_split :: "StratifiedKFold \<Rightarrow> features \<Rightarrow> labels \<Rightarrow> error + fold list"
  accuracy_score :: "labels \<Rightarrow> labels \<Rightarrow> error + real"
  recall_score :: "labels \<Rightarrow> labels \<Rightarrow> average \<Rightarrow> error + real"
  precision_score :: "labels \<Rightarrow> labels \<Rightarrow> average \<Rightarrow> error + real"
  f1_score :: "labels \<Rightarrow> labels \<Rightarrow> average \<Rightarrow> error + real"
  roc_curve :: "labels \<Rightarrow> real list \<Rightarrow> error + (real list \<times> real list \<times> real list)"
  auc :: "real list \<Rightarrow> real list \<Rightarrow> error + real"

subsection \<open>The registry\<close>

text \<open>The module-level dictionary \<^verbatim>\<open>classifiers\<close>: six names, each bound to one
  predictor instance.\<close>

definition classifiers :: "'p sklearn \<Rightarrow> (string \<times> 'p) list" where
  "classifiers env =
   [(''logistic_regression'', construct env (LogisticRegression [])),
    (''svm'', construct env (SVC [(''class_weight'', PyStr ''balanced''),
                                  (''probability'', PyBool True)])),
    (''linear_svm'', construct env (SVC [(''kernel'', PyStr ''linear''),
                                         (''C'', PyFloat (25 / 1000)),
                                         (''class_weight'', PyStr ''balanced''),
                                         (''probability'', PyBool True)])),
    (''svm_rbf'', construct env (SVC [(''gamma'', PyInt 2), (''C'', PyInt 1),
                                      (''probability'', PyBool True)])),
    (''mlp'', construct env (MLPClassifier [(''alpha'', PyFloat (1 / 100)),
                                            (''solver'', PyStr ''adam'')])),
    (''rf'', construct env (RandomForestClassifier
                              [(''class_weight'', PyStr ''balanced''),
                               (''n_estimators'', PyInt 800),
                               (''n_jobs'', PyInt (- 1))]))]"

subsection \<open>The class \<^verbatim>\<open>Classifier\<close>\<close>

text \<open>
  The attributes set by \<^verbatim>\<open>__init__\<close>.  \<^verbatim>\<open>self.X\<close> and \<^verbatim>\<open>self.y\<close> are the fields
  \<open>self_X\<close> and \<open>self_y\<close>.  \<^verbatim>\<open>self.colors\<close> is an endless cycle over six colour names;
  the field \<open>colors\<close> is the number of colours drawn from it so far.
\<close>

record 'p Classifier =
  self_X :: features
  self_y :: labels
  items :: "string list option"
  classifier_type :: string
  classifier :: 'p
  feature_names :: "string list option"
  binary_class :: bool
  colors :: nat
  line_width :: int
  folds_num :: int
  cv :: StratifiedKFold

definition palette :: "string list" where
  "palette = [''cyan'', ''indigo'', ''seagreen'', ''yellow'', ''blue'', ''darkorange'']"

definition next_color :: "'p Classifier \<Rightarrow> string \<times> 'p Classifier" where
  "next_color c = (palette ! (colors c mod 6), c\<lparr>colors := colors c + 1\<rparr>)"

definition init ::
  "'p sklearn \<Rightarrow> features \<Rightarrow> labels \<Rightarrow> string \<Rightarrow> string list option \<Rightarrow>
   string list option \<Rightarrow> bool \<Rightarrow> error + 'p Classifier" where
  "init env X y ctype its fnames binary =
     (case map_of (classifiers env) ctype of
        None \<Rightarrow> Inl (KeyError ctype)
      | Some p \<Rightarrow>
          Inr \<lparr>self_X = X, self_y = y, items = its, classifier_type = ctype,
               classifier = p, feature_names = fnames, binary_class = binary,
               colors = 0, line_width = 2, folds_num = 10,
               cv = \<lparr>n_splits = 10, shuffle = True\<rparr>\<rparr>)"

text \<open>
  \<^verbatim>\<open>train\<close>: the fallback to the held data set, then the branch on the configuration
  name.  The \<^verbatim>\<open>'dnn'\<close> branch is \<^verbatim>\<open>pass\<close>.  The result is the object and the value
  returned, \<^verbatim>\<open>self.classifier\<close>.
\<close>

definition train ::
  "'p sklearn \<Rightarrow> 'p Classifier \<Rightarrow> features option \<Rightarrow> labels option \<Rightarrow>
   error + ('p Classifier \<times> 'p)" where
  "train env c X_train y_train =
     (let (X_train, y_train) =
            (if X_train = None \<and> y_train = None
             then (Some (self_X c), Some (self_y c))
             else (X_train, y_train))
      in if classifier_type c = ''dnn'' then Inr (c, classifier c)
         else rbind (fit env (classifier c) X_train y_train)
                (\<lambda>p. Inr (c\<lparr>classifier := p\<rparr>, p)))"

subsection \<open>\<^verbatim>\<open>evaluate\<close>\<close>

text \<open>What \<^verbatim>\<open>evaluate\<close> emits: a call of \<^verbatim>\<open>logging.info\<close> (format string and
  arguments), a call of \<^verbatim>\<open>plt.plot\<close> (the two rates, line width, colour, and the fold
  index and area that make up the label), a call of \<^verbatim>\<open>utils.show_roc_graph\<close>.\<close>

datatype event =
    Info string "real list"
  | Plot "real list" "real list" int string nat real
  | ShowRocGraph bool

text \<open>The five running sums.\<close>

record totals =
  accuracy_sum :: real
  recall_sum :: real
  precision_sum :: real
  f1_sum :: real
  roc_auc_sum :: real

definition zero_sums :: totals where
  "zero_sums = \<lparr>accuracy_sum = 0, recall_sum = 0, precision_sum = 0, f1_sum = 0,
                 roc_auc_sum = 0\<rparr>"

text \<open>\<^verbatim>\<open>np.array(probs)[:, 1]\<close>: the rows must form a matrix with a column 1.  An empty
  list gives a one-dimensional array, and rows of different lengths give no matrix;
  both raise.\<close>

definition column1 :: "real list list \<Rightarrow> error + real list" where
  "column1 probs =
     (case probs of
        [] \<Rightarrow> Inl IndexError
      | r # rs \<Rightarrow>
          if \<not> list_all (\<lambda>r'. length r' = length r) rs then Inl ValueError
          else if length r < 2 then Inl IndexError
          else Inr (map (\<lambda>row. row ! 1) probs))"

text \<open>The branch \<^verbatim>\<open>if self.binary_class:\<close> of the loop body.\<close>

definition binary_branch ::
  "'p sklearn \<Rightarrow> 'p Classifier \<Rightarrow> totals \<Rightarrow> string \<Rightarrow> nat \<Rightarrow> features \<Rightarrow> labels \<Rightarrow>
   labels \<Rightarrow> error + (totals \<times> event list)" where
  "binary_branch env c s color fold_index X_test y_test y_pred =
     rbind (accuracy_score env y_test y_pred) (\<lambda>accuracy.
     rbind (recall_score env y_test y_pred Binary) (\<lambda>recall.
     rbind (precision_score env y_test y_pred Binary) (\<lambda>precision.
     rbind (f1_score env y_test y_pred Binary) (\<lambda>f1.
     let s1 = s\<lparr>accuracy_sum := accuracy_sum s + accuracy,
                 recall_sum := recall_sum s + recall,
                 precision_sum := precision_sum s + precision,
                 f1_sum := f1_sum s + f1\<rparr>;
         evs1 = [Info ''Accuracy: %.2f'' [accuracy], Info ''Recall: %.2f'' [recall],
                 Info ''Precision: %.2f'' [precision], Info ''F-measure: %.2f'' [f1]]
     in
     rbind (predict_proba env (classifier c) X_test) (\<lambda>probs.
     rbind (column1 probs) (\<lambda>y_prob.
     if length y_test = length y_prob then
       rbind (roc_curve env y_test y_prob) (\<lambda>(fpr, tpr, thresholds).
       rbind (auc env fpr tpr) (\<lambda>roc_auc.
       Inr (s1\<lparr>roc_auc_sum := roc_auc_sum s1 + roc_auc\<rparr>,
            evs1 @ [Info ''AUC: %.2f'' [roc_auc],
                    Plot fpr tpr (line_width c) color fold_index roc_auc])))
     else Inr (s1, evs1)))))))"

text \<open>The \<^verbatim>\<open>else\<close> branch.\<close>

definition macro_branch ::
  "'p sklearn \<Rightarrow> totals \<Rightarrow> labels \<Rightarrow> labels \<Rightarrow> error + (totals \<times> event list)" where
  "macro_branch env s y_test y_pred =
     rbind (recall_score env y_test y_pred Macro) (\<lambda>recall.
     rbind (precision_score env y_test y_pred Macro) (\<lambda>precision.
     rbind (f1_score env y_test y_pred Macro) (\<lambda>f1.
     Inr (s\<lparr>recall_sum := recall_sum s + recall,
            precision_sum := precision_sum s + precision,
            f1_sum := f1_sum s + f1\<rparr>,
          [Info ''Recall: %.2f'' [recall], Info ''Precision: %.2f'' [precision],
           Info ''F-measure: %.2f'' [f1]]))))"

text \<open>One pass through the loop body, for the fold \<open>(train_index, test_index)\<close>.\<close>

definition evaluate_fold ::
  "'p sklearn \<Rightarrow> 'p Classifier \<Rightarrow> totals \<Rightarrow> nat \<Rightarrow> fold \<Rightarrow>
   error + ('p Classifier \<times> totals \<times> event list)" where
  "evaluate_fold env c s fold_index f =
     (let (train_index, test_index) = f; (color, c1) = next_color c in
      rbind (np_take (self_X c1) train_index) (\<lambda>X_train.
      rbind (np_take (self_X c1) test_index) (\<lambda>X_test.
      rbind (np_take (self_y c1) train_index) (\<lambda>y_train.
      rbind (np_take (self_y c1) test_index) (\<lambda>y_test.
      rbind (train env c1 (Some X_train) (Some y_train)) (\<lambda>(c2, trained).
      rbind (predict env (classifier c2) X_test) (\<lambda>y_pred.
      rbind (if binary_class c2
             then binary_branch env c2 s color fold_index X_test y_test y_pred
             else macro_branch env s y_test y_pred) (\<lambda>(s', evs).
      Inr (c2, s', evs)))))))))"

text \<open>The loop.  \<^verbatim>\<open>fold_index\<close> is incremented only after the loop, so it is the same
  in every pass.\<close>

fun evaluate_loop ::
  "'p sklearn \<Rightarrow> 'p Classifier \<Rightarrow> totals \<Rightarrow> nat \<Rightarrow> fold list \<Rightarrow>
   error + ('p Classifier \<times> totals \<times> event list)" where
  "evaluate_loop env c s fold_index [] = Inr (c, s, [])"
| "evaluate_loop env c s fold_index (f # fs) =
     rbind (evaluate_fold env c s fold_index f) (\<lambda>(c', s', evs).
     rbind (evaluate_loop env c' s' fold_index fs) (\<lambda>(c'', s'', evs').
     Inr (c'', s'', evs @ evs')))"

text \<open>The lines after the loop.  Every division is by \<^verbatim>\<open>self.folds_num\<close>, and one of
  them is always reached; a zero divisor is modelled as Python's \<^verbatim>\<open>ZeroDivisionError\<close>.
  (\<^verbatim>\<open>__init__\<close> sets \<^verbatim>\<open>self.folds_num\<close> to 10.)\<close>

definition report :: "'p Classifier \<Rightarrow> totals \<Rightarrow> error + event list" where
  "report c s =
     (if folds_num c = 0 then Inl ZeroDivisionError
      else Inr
        ((if binary_class c
          then [Info ''Avg. accuracy: %.2f'' [accuracy_sum s / real_of_int (folds_num c)]]
          else []) @
         [Info ''Avg. recall: %.2f'' [recall_sum s / real_of_int (folds_num c)],
          Info ''Avg. precision: %.2f'' [precision_sum s / real_of_int (folds_num c)],
          Info ''Avg. F-measure: %.2f'' [f1_sum s / real_of_int (folds_num c)]] @
         (if binary_class c \<and> roc_auc_sum s > 0
          then [Info ''Avg. AUC: %.2f'' [roc_auc_sum s / real_of_int (folds_num c)],
                ShowRocGraph False]
          else [])))"

definition evaluate :: "'p sklearn \<Rightarrow> 'p Classifier \<Rightarrow> error + ('p Classifier \<times> event list)" where
  "evaluate env c =
     rbind (kfold_split env (cv c) (self_X c) (self_y c)) (\<lambda>folds.
     rbind (evaluate_loop env c zero_sums 1 folds) (\<lambda>(c', s, evs).
     rbind (report c' s) (\<lambda>avgs.
     Inr (c', Info (''Evaluating '' @ classifier_type c @ '' classifier'') [] # evs @ avgs))))"

text \<open>The values logged under one format string, in order.\<close>

fun logged :: "string \<Rightarrow> event list \<Rightarrow> real list" where
  "logged msg [] = []"
| "logged msg (Info m vs # evs) = (if m = msg then vs @ logged msg evs else logged msg evs)"
| "logged msg (e # evs) = logged msg evs"

subsection \<open>\<^verbatim>\<open>cross_validate\<close>\<close>

text \<open>The comprehension \<^verbatim>\<open>[idx for idx in train_index if self.y[idx] >= 0]\<close>.\<close>

fun known_indices :: "labels \<Rightarrow> int list \<Rightarrow> error + int list" where
  "known_indices y [] = Inr []"
| "known_indices y (idx # rest) =
     rbind (np_get y idx) (\<lambda>l.
     rbind (known_indices y rest) (\<lambda>r.
     Inr (if l \<ge> 0 then idx # r else r)))"

text \<open>The body of the loop up to the \<^verbatim>\<open>yield\<close>: the model fitted for one fold.\<close>

definition cross_validate_fold ::
  "'p sklearn \<Rightarrow> 'p Classifier \<Rightarrow> int list \<Rightarrow> error + 'p" where
  "cross_validate_fold env c train_index =
     rbind (known_indices (self_y c) train_index) (\<lambda>train_index.
     rbind (np_take (self_X c) train_index) (\<lambda>X_train.
     rbind (np_take (self_y c) train_index) (\<lambda>y_train.
     let classifier = construct env (SVC [(''class_weight'', PyStr ''balanced''),
                                          (''probability'', PyBool True)])
     in fit env classifier (Some X_train) (Some y_train))))"

text \<open>
  The generator: the pairs it yields, the exception that ends it (if any), and the object
  afterwards.  A pass that raises yields nothing and ends the generator.
\<close>

fun cross_validate_loop ::
  "'p sklearn \<Rightarrow> 'p Classifier \<Rightarrow> fold list \<Rightarrow>
   ('p \<times> int list) list \<times> error option \<times> 'p Classifier" where
  "cross_validate_loop env c [] = ([], None, c)"
| "cross_validate_loop env c ((train_index, test_index) # fs) =
     (let (color, c1) = next_color c in
      case cross_validate_fold env c1 train_index of
        Inl e \<Rightarrow> ([], Some e, c1)
      | Inr model \<Rightarrow>
          (let (ys, e, c2) = cross_validate_loop env c1 fs
           in ((model, test_index) # ys, e, c2)))"

definition cross_validate ::
  "'p sklearn \<Rightarrow> 'p Classifier \<Rightarrow> ('p \<times> int list) list \<times> error option \<times> 'p Classifier" where
  "cross_validate env c =
     (case kfold_split env (cv c) (self_X c) (self_y c) of
        Inl e \<Rightarrow> ([], Some e, c)
      | Inr folds \<Rightarrow> cross_validate_loop env c folds)"

subsection \<open>A test double of the library\<close>

text \<open>
  A concrete library for running the methods on examples.  Its predictor objects are
  spies: an object is the constructor call that made it and the arguments of the last
  \<open>fit\<close> it received.  The fold planner returns a canned plan, every prediction is the
  label 1, and every metric is the fraction of agreeing positions.
\<close>

type_synonym spy = "estimator \<times> (features option \<times> labels option) option"

definition spy_accuracy :: "labels \<Rightarrow> labels \<Rightarrow> error + real" where
  "spy_accuracy y_true y_pred =
     (if y_true = [] then Inl ValueError
      else Inr (real (length (filter (\<lambda>(a, b). a = b) (zip y_true y_pred))) /
                real (length y_true)))"

definition spy_env :: "fold list \<Rightarrow> spy sklearn" where
  "spy_env folds =
     \<lparr>construct = (\<lambda>e. (e, None)),
      fit = (\<lambda>p X y. Inr (fst p, Some (X, y))),
      predict = (\<lambda>p X. Inr (map (\<lambda>row. 1) X)),
      predict_proba = (\<lambda>p X. Inr (map (\<lambda>row. [1 / 2, 1 / 2]) X)),
      kfold_split = (\<lambda>cv X y. Inr folds),
      accuracy_score = spy_accuracy,
      recall_score = (\<lambda>y_true y_pred avg. spy_accuracy y_true y_pred),
      precision_score = (\<lambda>y_true y_pred avg. spy_accuracy y_true y_pred),
      f1_score = (\<lambda>y_true y_pred avg. spy_accuracy y_true y_pred),
      roc_curve = (\<lambda>y_true y_score. Inr ([0, 1], [0, 1], [1, 0])),
      auc = (\<lambda>fpr tpr. Inr (1 / 2))\<rparr>"

text \<open>A \<^verbatim>\<open>Classifier\<close> over six points, as \<^verbatim>\<open>__init__\<close> leaves it for the name
  \<^verbatim>\<open>'svm'\<close>, with the configuration name and the mode as parameters.\<close>

definition example :: "string \<Rightarrow> bool \<Rightarrow> spy Classifier" where
  "example ctype binary =
     \<lparr>self_X = [[0], [1], [2], [3], [4], [5]], self_y = [0, 1, - 1, 1, - 3, 0], items = None,
      classifier_type = ctype,
      classifier = (SVC [(''class_weight'', PyStr ''balanced''),
                         (''probability'', PyBool True)], None),
      feature_names = None, binary_class = binary,
      colors = 0, line_width = 2, folds_num = 10,
      cv = \<lparr>n_splits = 10, shuffle = True\<rparr>\<rparr>"

text \<open>A canned plan of three folds over the six points.\<close>

definition plan3 :: "fold list" where
  "plan3 = [([2, 3, 4, 5], [0, 1]), ([0, 1, 4, 5], [2, 3]), ([0, 1, 2, 3], [4, 5])]"

text \<open>A plan of three folds whose test sets have two, three and one point.\<close>

definition uneven3 :: "fold list" where
  "uneven3 = [([2, 3, 4, 5], [0, 1]), ([0, 1, 5], [2, 3, 4]), ([0, 1, 2, 3, 4], [5])]"

text \<open>The test double with a predictor that emits two rows of probabilities whatever
  the number of test points.\<close>

definition two_rows_env :: "fold list \<Rightarrow> spy sklearn" where
  "two_rows_env folds =
     (spy_env folds)\<lparr>predict_proba := (\<lambda>p X. Inr [[1 / 4, 3 / 4], [1 / 4, 3 / 4]])\<rparr>"

text \<open>Ten points with alternating labels, and the plan that tests one point per fold.\<close>

definition loo10 :: "fold list" where
  "loo10 = map (\<lambda>i. (filter (\<lambda>j. j \<noteq> i) [0, 1, 2, 3, 4, 5, 6, 7, 8, 9], [i]))
             [0, 1, 2, 3, 4, 5, 6, 7, 8, 9]"

definition example10 :: "bool \<Rightarrow> spy Classifier" where
  "example10 binary =
     \<lparr>self_X = [[0], [1], [2], [3], [4], [5], [6], [7], [8], [9]],
      self_y = [0, 1, 0, 1, 0, 1, 0, 1, 0, 1], items = None,
      classifier_type = ''svm'',
      classifier = (SVC [(''class_weight'', PyStr ''balanced''),
                         (''probability'', PyBool True)], None),
      feature_names = None, binary_class = binary,
      colors = 0, line_width = 2, folds_num = 10,
      cv = \<lparr>n_splits = 10, shuffle = True\<rparr>\<rparr>"

text \<open>The expected outcome of \<^verbatim>\<open>evaluate\<close> on the six points with the uneven plan and the
  two-row predictor: the object afterwards and the events.  Only the first fold has as
  many scores as test labels.\<close>

definition uneven_run :: "spy Classifier \<times> event list" where
  "uneven_run =
     ((example ''svm'' True)
        \<lparr>colors := 3,
         classifier := (SVC [(''class_weight'', PyStr ''balanced''),
                             (''probability'', PyBool True)],
                        Some (Some [[0], [1], [2], [3], [4]], Some [0, 1, - 1, 1, - 3]))\<rparr>,
      [Info ''Evaluating svm classifier'' [],
       Info ''Accuracy: %.2f'' [1 / 2], Info ''Recall: %.2f'' [1 / 2],
       Info ''Precision: %.2f'' [1 / 2], Info ''F-measure: %.2f'' [1 / 2],
       Info ''AUC: %.2f'' [1 / 2], Plot [0, 1] [0, 1] 2 ''cyan'' 1 (1 / 2),
       Info ''Accuracy: %.2f'' [1 / 3], Info ''Recall: %.2f'' [1 / 3],
       Info ''Precision: %.2f'' [1 / 3], Info ''F-measure: %.2f'' [1 / 3],
       Info ''Accuracy: %.2f'' [0], Info ''Recall: %.2f'' [0],
       Info ''Precision: %.2f'' [0], Info ''F-measure: %.2f'' [0],
       Info ''Avg. accuracy: %.2f'' [1 / 12],
       Info ''Avg. recall: %.2f'' [1 / 12],
       Info ''Avg. precision: %.2f'' [1 / 12],
       Info ''Avg. F-measure: %.2f'' [1 / 12],
       Info ''Avg. AUC: %.2f'' [1 / 20], ShowRocGraph False])"

text \<open>The expected outcome of \<^verbatim>\<open>evaluate\<close> on the ten points, one test point per fold.\<close>

definition loo10_run :: "spy Classifier \<times> event list" where
  "loo10_run =
     ((example10 True)
        \<lparr>colors := 10,
         classifier := (SVC [(''class_weight'', PyStr ''balanced''),
                             (''probability'', PyBool True)],
                        Some (Some [[0], [1], [2], [3], [4], [5], [6], [7], [8]],
                              Some [0, 1, 0, 1, 0, 1, 0, 1, 0]))\<rparr>,
      Info ''Evaluating svm classifier'' [] #
      concat (map (\<lambda>(v, color).
                [Info ''Accuracy: %.2f'' [v], Info ''Recall: %.2f'' [v],
                 Info ''Precision: %.2f'' [v], Info ''F-measure: %.2f'' [v],
                 Info ''AUC: %.2f'' [1 / 2], Plot [0, 1] [0, 1] 2 color 1 (1 / 2)])
              [(0, ''cyan''), (1, ''indigo''), (0, ''seagreen''), (1, ''yellow''),
               (0, ''blue''), (1, ''darkorange''), (0, ''cyan''), (1, ''indigo''),
               (0, ''seagreen''), (1, ''yellow'')]) @
      [Info ''Avg. accuracy: %.2f'' [1 / 2], Info ''Avg. recall: %.2f'' [1 / 2],
       Info ''Avg. precision: %.2f'' [1 / 2], Info ''Avg. F-measure: %.2f'' [1 / 2],
       Info ''Avg. AUC: %.2f'' [1 / 2], ShowRocGraph False])"

text \<open>The test double with no accuracy function and with recall, precision and F1
  defined for macro-averaging only.\<close>

definition macro_only_env :: "fold list \<Rightarrow> spy sklearn" where
  "macro_only_env folds =
     (spy_env folds)
       \<lparr>accuracy_score := (\<lambda>y_true y_pred. Inl ValueError),
        recall_score := (\<lambda>y_true y_pred avg.
           if avg = Macro then spy_accuracy y_true y_pred else Inl ValueError),
        precision_score := (\<lambda>y_true y_pred avg.
           if avg = Macro then spy_accuracy y_true y_pred else Inl ValueError),
        f1_score := (\<lambda>y_true y_pred avg.
           if avg = Macro then spy_accuracy y_true y_pred else Inl ValueError)\<rparr>"

text \<open>The expected outcome of \<^verbatim>\<open>evaluate\<close> in multiclass mode on the six points with the
  plan of three folds.\<close>

definition multiclass_run :: "spy Classifier \<times> event list" where
  "multiclass_run =
     ((example ''svm'' False)
        \<lparr>colors := 3,
         classifier := (SVC [(''class_weight'', PyStr ''balanced''),
                             (''probability'', PyBool True)],
                        Some (Some [[0], [1], [2], [3]], Some [0, 1, - 1, 1]))\<rparr>,
      [Info ''Evaluating svm classifier'' [],
       Info ''Recall: %.2f'' [1 / 2], Info ''Precision: %.2f'' [1 / 2],
       Info ''F-measure: %.2f'' [1 / 2],
       Info ''Recall: %.2f'' [1 / 2], Info ''Precision: %.2f'' [1 / 2],
       Info ''F-measure: %.2f'' [1 / 2],
       Info ''Recall: %.2f'' [0], Info ''Precision: %.2f'' [0], Info ''F-measure: %.2f'' [0],
       Info ''Avg. recall: %.2f'' [1 / 10], Info ''Avg. precision: %.2f'' [1 / 10],
       Info ''Avg. F-measure: %.2f'' [1 / 10]])"

text \<open>The two-row test double with a \<open>roc_curve\<close> that, like the library's, rejects
  labels and scores of different lengths.\<close>

definition strict_roc_env :: "fold list \<Rightarrow> spy sklearn" where
  "strict_roc_env folds =
     (two_rows_env folds)
       \<lparr>roc_curve := (\<lambda>y_true y_score.
          if length y_true = length y_score then Inr ([0, 1], [0, 1], [1, 0])
          else Inl ValueError)\<rparr>"

section \<open>Properties\<close>

subsection \<open>\<^verbatim>\<open>__init__\<close> and \<^verbatim>\<open>train\<close>\<close>

lemma init_example:
  "init (spy_env []) [[0], [1], [2], [3], [4], [5]] [0, 1, - 1, 1, - 3, 0] ''svm'' None None binary =
     Inr (example ''svm'' binary)"
  by (simp add: init_def classifiers_def spy_env_def example_def)

lemma init_invariant:
  assumes "init env X y ctype its fnames binary = Inr c"
  shows "folds_num c = 10 \<and> n_splits (cv c) = folds_num c \<and> classifier_type c \<noteq> ''dnn''"
  using assms by (auto simp: init_def classifiers_def split: option.splits if_splits)

text \<open>
  Claim C1, as amended.  The name \<^verbatim>\<open>'dnn'\<close> is not a key of the registry, so
  constructing a \<^verbatim>\<open>Classifier\<close> with it raises \<^verbatim>\<open>KeyError\<close>.  On an object whose
  \<^verbatim>\<open>classifier_type\<close> is \<^verbatim>\<open>'dnn'\<close>, \<^verbatim>\<open>train\<close> raises nothing: it fits nothing, leaves
  the object as it is and returns the current predictor object, whatever arguments it
  was given.
\<close>

theorem train_dnn_is_noop:
  "init env X y ''dnn'' its fnames binary = Inl (KeyError ''dnn'') \<and>
   (classifier_type c = ''dnn'' \<longrightarrow> train env c X_train y_train = Inr (c, classifier c))"
  by (simp add: init_def classifiers_def train_def split: prod.splits)

theorem train_dnn_is_noop_witness:
  "init (spy_env []) [[0], [1], [2], [3], [4], [5]] [0, 1, - 1, 1, - 3, 0] ''dnn'' None None True =
     Inl (KeyError ''dnn'') \<and>
   train (spy_env []) (example ''dnn'' True) (Some [[5]]) (Some [1]) =
     Inr (example ''dnn'' True, classifier (example ''dnn'' True))"
  using train_dnn_is_noop [of "spy_env []" "[[0], [1], [2], [3], [4], [5]]" "[0, 1, - 1, 1, - 3, 0]" None None
      True "example ''dnn'' True" "Some [[5]]" "Some [1]"]
  by (simp add: example_def)

text \<open>
  Claim C1 as stated fails: on the example object with \<^verbatim>\<open>classifier_type = 'dnn'\<close>,
  \<^verbatim>\<open>train()\<close> raises no exception and returns the predictor that was never fitted.
\<close>

theorem train_dnn_raises_counterexample:
  "\<not> isl (train (spy_env []) (example ''dnn'' True) None None) \<and>
   train (spy_env []) (example ''dnn'' True) None None =
     Inr (example ''dnn'' True,
          (SVC [(''class_weight'', PyStr ''balanced''), (''probability'', PyBool True)], None))"
  by (simp add: train_def example_def)

text \<open>
  Claim C10.  \<^verbatim>\<open>train\<close> replaces its arguments by the held data set only when both are
  \<^verbatim>\<open>None\<close>; when at least one of them is given, both go to \<open>fit\<close> as they are, a \<^verbatim>\<open>None\<close>
  included.  (The \<^verbatim>\<open>'dnn'\<close> branch calls no \<open>fit\<close> at all.)
\<close>

theorem train_fallback_only_when_both_None:
  "train env c None None =
     (if classifier_type c = ''dnn'' then Inr (c, classifier c)
      else rbind (fit env (classifier c) (Some (self_X c)) (Some (self_y c)))
             (\<lambda>p. Inr (c\<lparr>classifier := p\<rparr>, p))) \<and>
   (X_train \<noteq> None \<or> y_train \<noteq> None \<longrightarrow>
    train env c X_train y_train =
     (if classifier_type c = ''dnn'' then Inr (c, classifier c)
      else rbind (fit env (classifier c) X_train y_train)
             (\<lambda>p. Inr (c\<lparr>classifier := p\<rparr>, p))))"
  by (auto simp: train_def)

theorem train_fallback_only_when_both_None_witness:
  "train (spy_env []) (example ''svm'' True) None None =
     Inr ((example ''svm'' True)
            \<lparr>classifier := (fst (classifier (example ''svm'' True)),
                            Some (Some [[0], [1], [2], [3], [4], [5]], Some [0, 1, - 1, 1, - 3, 0]))\<rparr>,
          (fst (classifier (example ''svm'' True)),
           Some (Some [[0], [1], [2], [3], [4], [5]], Some [0, 1, - 1, 1, - 3, 0]))) \<and>
   train (spy_env []) (example ''svm'' True) (Some [[5]]) None =
     Inr ((example ''svm'' True)
            \<lparr>classifier := (fst (classifier (example ''svm'' True)), Some (Some [[5]], None))\<rparr>,
          (fst (classifier (example ''svm'' True)), Some (Some [[5]], None)))"
  using train_fallback_only_when_both_None
          [of "spy_env []" "example ''svm'' True" "Some [[5]]" None]
  by (simp add: rbind_def spy_env_def example_def)

subsection \<open>\<^verbatim>\<open>cross_validate\<close>\<close>

lemma np_get_cases:
  "np_get xs i =
     (if - int (length xs) \<le> i \<and> i < int (length xs)
      then Inr (xs ! nat (if i < 0 then i + int (length xs) else i))
      else Inl IndexError)"
  by (auto simp: np_get_def Let_def)

lemma known_indices_eq:
  "known_indices y tr =
     (if list_all (\<lambda>idx. - int (length y) \<le> idx \<and> idx < int (length y)) tr
      then Inr (filter (\<lambda>idx. case np_get y idx of Inl e \<Rightarrow> False | Inr l \<Rightarrow> 0 \<le> l) tr)
      else Inl IndexError)"
proof (induction tr)
  case Nil
  show ?case by simp
next
  case (Cons idx rest)
  show ?case
  proof (cases "- int (length y) \<le> idx \<and> idx < int (length y)")
    case True
    then obtain l where l: "np_get y idx = Inr l" by (simp add: np_get_cases)
    show ?thesis using True l Cons.IH by (simp add: rbind_def)
  next
    case False
    then have "np_get y idx = Inl IndexError" by (auto simp add: np_get_cases)
    then show ?thesis using False by (auto simp add: rbind_def)
  qed
qed

lemma np_take_Inr:
  "np_take xs idx = Inr vs \<Longrightarrow> list_all2 (\<lambda>i v. np_get xs i = Inr v) idx vs"
proof (induction idx arbitrary: vs)
  case Nil
  then show ?case by simp
next
  case (Cons i idx)
  then show ?case by (auto simp: rbind_def split: sum.splits)
qed

lemma np_take_labels_known:
  assumes "np_take y (filter (\<lambda>idx. case np_get y idx of Inl e \<Rightarrow> False | Inr l \<Rightarrow> (0::int) \<le> l) tr) = Inr y_train"
  shows "\<forall>l\<in>set y_train. 0 \<le> l"
proof -
  let ?kept = "filter (\<lambda>idx. case np_get y idx of Inl e \<Rightarrow> False | Inr l \<Rightarrow> 0 \<le> l) tr"
  have a: "list_all2 (\<lambda>i v. np_get y i = Inr v) ?kept y_train"
    using assms by (rule np_take_Inr)
  show ?thesis
  proof
    fix l assume "l \<in> set y_train"
    then obtain n where n: "n < length y_train" "y_train ! n = l" by (auto simp: in_set_conv_nth)
    from a n have len: "n < length ?kept" and g: "np_get y (?kept ! n) = Inr l"
      by (auto simp: list_all2_conv_all_nth)
    from len have "?kept ! n \<in> set ?kept" by (rule nth_mem)
    then have "case np_get y (?kept ! n) of Inl e \<Rightarrow> False | Inr l \<Rightarrow> 0 \<le> l" by simp
    with g show "0 \<le> l" by simp
  qed
qed

lemma cross_validate_fold_colors:
  "cross_validate_fold env (snd (next_color c)) tr = cross_validate_fold env c tr"
  by (simp add: cross_validate_fold_def next_color_def)


lemma cross_validate_fold_eq:
  "cross_validate_fold env c train_index =
     (if list_all (\<lambda>idx. - int (length (self_y c)) \<le> idx \<and> idx < int (length (self_y c)))
           train_index
      then rbind (np_take (self_X c)
                   (filter (\<lambda>idx. case np_get (self_y c) idx of Inl e \<Rightarrow> False | Inr l \<Rightarrow> 0 \<le> l)
                      train_index)) (\<lambda>X_train.
           rbind (np_take (self_y c)
                   (filter (\<lambda>idx. case np_get (self_y c) idx of Inl e \<Rightarrow> False | Inr l \<Rightarrow> 0 \<le> l)
                      train_index)) (\<lambda>y_train.
           fit env (construct env (SVC [(''class_weight'', PyStr ''balanced''),
                                        (''probability'', PyBool True)]))
             (Some X_train) (Some y_train)))
      else Inl IndexError)"
  by (simp add: cross_validate_fold_def known_indices_eq rbind_def)

lemma cross_validate_loop_yields:
  "cross_validate_loop env c folds = (yielded, err, c') \<Longrightarrow>
   map snd yielded = take (length yielded) (map snd folds) \<and>
   length yielded \<le> length folds \<and>
   (err = None \<longrightarrow> length yielded = length folds) \<and>
   (\<forall>i<length yielded.
      cross_validate_fold env c (fst (folds ! i)) = Inr (fst (yielded ! i)))"
proof (induction folds arbitrary: c yielded err c')
  case Nil
  then show ?case by simp
next
  case (Cons f fs)
  obtain train_index test_index where f: "f = (train_index, test_index)" by (cases f)
  let ?c1 = "snd (next_color c)"
  show ?case
  proof (cases "cross_validate_fold env ?c1 train_index")
    case (Inl e)
    with Cons.prems f have "yielded = []" and "err = Some e"
      by (simp_all split: prod.splits)
    then show ?thesis by simp
  next
    case (Inr model)
    obtain ys e c2 where rest: "cross_validate_loop env ?c1 fs = (ys, e, c2)"
      by (cases "cross_validate_loop env ?c1 fs")
    with Cons.prems f Inr have y: "yielded = (model, test_index) # ys" and e: "err = e"
      by (simp_all split: prod.splits)
    note ih = Cons.IH [OF rest]
    have "\<forall>i<length yielded.
            cross_validate_fold env c (fst ((f # fs) ! i)) = Inr (fst (yielded ! i))"
    proof (intro allI impI)
      fix i assume i: "i < length yielded"
      show "cross_validate_fold env c (fst ((f # fs) ! i)) = Inr (fst (yielded ! i))"
      proof (cases i)
        case 0
        then show ?thesis using Inr f y by (simp add: cross_validate_fold_colors)
      next
        case (Suc j)
        with i y have "j < length ys" by simp
        with ih have "cross_validate_fold env ?c1 (fst (fs ! j)) = Inr (fst (ys ! j))" by blast
        then show ?thesis using Suc y by (simp add: cross_validate_fold_colors)
      qed
    qed
    then show ?thesis using ih y e f by simp
  qed
qed

text \<open>
  Claim C9.  The model that \<^verbatim>\<open>cross_validate\<close> fits for a fold is fitted on exactly the
  training indices whose label is \<open>\<ge> 0\<close>, in their order: every index with a negative
  label, whatever its value, is left out, and no label passed to \<open>fit\<close> is negative.
\<close>

theorem cross_validate_keeps_nonnegative_labels:
  assumes "cross_validate_fold env c train_index = Inr model"
  shows "\<exists>X_train y_train.
           np_take (self_X c)
             (filter (\<lambda>idx. case np_get (self_y c) idx of Inl e \<Rightarrow> False | Inr l \<Rightarrow> 0 \<le> l)
                train_index) = Inr X_train \<and>
           np_take (self_y c)
             (filter (\<lambda>idx. case np_get (self_y c) idx of Inl e \<Rightarrow> False | Inr l \<Rightarrow> 0 \<le> l)
                train_index) = Inr y_train \<and>
           fit env (construct env (SVC [(''class_weight'', PyStr ''balanced''),
                                        (''probability'', PyBool True)]))
             (Some X_train) (Some y_train) = Inr model \<and>
           (\<forall>l\<in>set y_train. 0 \<le> l)"
proof -
  let ?kept = "filter (\<lambda>idx. case np_get (self_y c) idx of Inl e \<Rightarrow> False | Inr l \<Rightarrow> 0 \<le> l)
                train_index"
  from assms obtain X_train y_train where
    X: "np_take (self_X c) ?kept = Inr X_train" and
    y: "np_take (self_y c) ?kept = Inr y_train" and
    m: "fit env (construct env (SVC [(''class_weight'', PyStr ''balanced''),
                                        (''probability'', PyBool True)]))
             (Some X_train) (Some y_train) = Inr model"
    by (auto simp: cross_validate_fold_eq rbind_def split: if_splits sum.splits)
  from y have "\<forall>l\<in>set y_train. 0 \<le> l" by (rule np_take_labels_known)
  with X y m show ?thesis by blast
qed

theorem cross_validate_keeps_nonnegative_labels_witness:
  "cross_validate_fold (spy_env []) (example ''svm'' True) [0, 1, 2, 4, 5] =
     Inr (SVC [(''class_weight'', PyStr ''balanced''), (''probability'', PyBool True)],
          Some (Some [[0], [1], [5]], Some [0, 1, 0])) \<and>
   filter (\<lambda>idx. case np_get (self_y (example ''svm'' True)) idx of
                    Inl e \<Rightarrow> False | Inr l \<Rightarrow> 0 \<le> l) [0, 1, 2, 4, 5] = [0, 1, 5]"
  using cross_validate_keeps_nonnegative_labels [of "spy_env []" "example ''svm'' True" "[0, 1, 2, 4, 5]"
      "(SVC [(''class_weight'', PyStr ''balanced''), (''probability'', PyBool True)],
          Some (Some [[0], [1], [5]], Some [0, 1, 0]))"]
  by (simp add: cross_validate_fold_def spy_env_def example_def rbind_def np_get_def)

text \<open>
  Claim C2.  For every pair that \<^verbatim>\<open>cross_validate\<close> yields: the test indices are those of
  the fold planner, unchanged (so they keep any index labelled \<open>-1\<close>); the model was
  fitted on training indices from which every index labelled \<open>-1\<close> was removed, and no
  label passed to \<open>fit\<close> is \<open>-1\<close>.  A generator that ends without an exception has
  yielded one pair per fold.
\<close>

theorem cross_validate_unknowns_leave_training_only:
  assumes "kfold_split env (cv c) (self_X c) (self_y c) = Inr folds"
    and "cross_validate env c = (yielded, err, c')"
  shows "map snd yielded = take (length yielded) (map snd folds) \<and>
         (err = None \<longrightarrow> length yielded = length folds) \<and>
         (\<forall>i<length yielded. \<exists>kept X_train y_train.
            known_indices (self_y c) (fst (folds ! i)) = Inr kept \<and>
            set kept \<subseteq> set (fst (folds ! i)) \<and>
            (\<forall>idx\<in>set (fst (folds ! i)).
               np_get (self_y c) idx = Inr (- 1) \<longrightarrow> idx \<notin> set kept) \<and>
            np_take (self_X c) kept = Inr X_train \<and>
            np_take (self_y c) kept = Inr y_train \<and>
            - 1 \<notin> set y_train \<and>
            fit env (construct env (SVC [(''class_weight'', PyStr ''balanced''),
                                         (''probability'', PyBool True)]))
              (Some X_train) (Some y_train) = Inr (fst (yielded ! i)))"
proof -
  from assms have loop: "cross_validate_loop env c folds = (yielded, err, c')"
    by (simp add: cross_validate_def)
  note l = cross_validate_loop_yields [OF loop]
  have "\<exists>kept X_train y_train.
            known_indices (self_y c) (fst (folds ! i)) = Inr kept \<and>
            set kept \<subseteq> set (fst (folds ! i)) \<and>
            (\<forall>idx\<in>set (fst (folds ! i)).
               np_get (self_y c) idx = Inr (- 1) \<longrightarrow> idx \<notin> set kept) \<and>
            np_take (self_X c) kept = Inr X_train \<and>
            np_take (self_y c) kept = Inr y_train \<and>
            - 1 \<notin> set y_train \<and>
            fit env (construct env (SVC [(''class_weight'', PyStr ''balanced''),
                                         (''probability'', PyBool True)]))
              (Some X_train) (Some y_train) = Inr (fst (yielded ! i))"
    if i: "i < length yielded" for i
  proof -
    let ?tr = "fst (folds ! i)"
    let ?kept = "filter (\<lambda>idx. case np_get (self_y c) idx of Inl e \<Rightarrow> False | Inr l \<Rightarrow> 0 \<le> l) ?tr"
    from l i have f: "cross_validate_fold env c ?tr = Inr (fst (yielded ! i))" by blast
    then have k: "known_indices (self_y c) ?tr = Inr ?kept"
      by (auto simp: cross_validate_fold_def known_indices_eq rbind_def split: if_splits)
    from f obtain X_train y_train where
      X: "np_take (self_X c) ?kept = Inr X_train" and
      y: "np_take (self_y c) ?kept = Inr y_train" and
      m: "fit env (construct env (SVC [(''class_weight'', PyStr ''balanced''),
                                       (''probability'', PyBool True)]))
            (Some X_train) (Some y_train) = Inr (fst (yielded ! i))"
      by (auto simp: cross_validate_fold_eq rbind_def split: if_splits sum.splits)
    from y have "\<forall>l\<in>set y_train. 0 \<le> l" by (rule np_take_labels_known)
    then have n: "- 1 \<notin> set y_train" by auto
    have s: "set ?kept \<subseteq> set ?tr" by auto
    have e: "\<forall>idx\<in>set ?tr. np_get (self_y c) idx = Inr (- 1) \<longrightarrow> idx \<notin> set ?kept" by simp
    from k s e X y n m show ?thesis by blast
  qed
  with l show ?thesis by blast
qed

theorem cross_validate_unknowns_leave_training_only_witness:
  "cross_validate (spy_env plan3) (example ''svm'' True) =
     ([((SVC [(''class_weight'', PyStr ''balanced''), (''probability'', PyBool True)],
         Some (Some [[3], [5]], Some [1, 0])), [0, 1]),
       ((SVC [(''class_weight'', PyStr ''balanced''), (''probability'', PyBool True)],
         Some (Some [[0], [1], [5]], Some [0, 1, 0])), [2, 3]),
       ((SVC [(''class_weight'', PyStr ''balanced''), (''probability'', PyBool True)],
         Some (Some [[0], [1], [3]], Some [0, 1, 1])), [4, 5])],
      None, (example ''svm'' True)\<lparr>colors := 3\<rparr>) \<and>
   np_get (self_y (example ''svm'' True)) 2 = Inr (- 1)"
proof -
  have s: "kfold_split (spy_env plan3) (cv (example ''svm'' True))
             (self_X (example ''svm'' True)) (self_y (example ''svm'' True)) = Inr plan3"
    by (simp add: spy_env_def)
  have r: "cross_validate (spy_env plan3) (example ''svm'' True) =
     ([((SVC [(''class_weight'', PyStr ''balanced''), (''probability'', PyBool True)],
         Some (Some [[3], [5]], Some [1, 0])), [0, 1]),
       ((SVC [(''class_weight'', PyStr ''balanced''), (''probability'', PyBool True)],
         Some (Some [[0], [1], [5]], Some [0, 1, 0])), [2, 3]),
       ((SVC [(''class_weight'', PyStr ''balanced''), (''probability'', PyBool True)],
         Some (Some [[0], [1], [3]], Some [0, 1, 1])), [4, 5])],
      None, (example ''svm'' True)\<lparr>colors := 3\<rparr>)"
    by (simp add: cross_validate_def cross_validate_fold_def spy_env_def example_def plan3_def
        next_color_def rbind_def np_get_def)
  have g: "np_get (self_y (example ''svm'' True)) 2 = Inr (- 1)"
    by (simp add: example_def np_get_def)
  from cross_validate_unknowns_leave_training_only [OF s r] r g show ?thesis by simp
qed

subsection \<open>\<^verbatim>\<open>evaluate\<close>: what one fold and the loop do\<close>

lemma column1_length: "column1 probs = Inr y_prob \<Longrightarrow> length y_prob = length probs"
  by (auto simp: column1_def split: list.splits if_splits)

lemma binary_branch_Inr:
  assumes "binary_branch env c s color fold_index X_test y_test y_pred = Inr (s', evs)"
  obtains accuracy recall precision f1 probs y_prob where
    "accuracy_score env y_test y_pred = Inr accuracy"
    "recall_score env y_test y_pred Binary = Inr recall"
    "precision_score env y_test y_pred Binary = Inr precision"
    "f1_score env y_test y_pred Binary = Inr f1"
    "predict_proba env (classifier c) X_test = Inr probs"
    "column1 probs = Inr y_prob"
    "accuracy_sum s' = accuracy_sum s + accuracy"
    "recall_sum s' = recall_sum s + recall"
    "precision_sum s' = precision_sum s + precision"
    "f1_sum s' = f1_sum s + f1"
    "length y_test = length y_prob \<longrightarrow>
       (\<exists>fpr tpr thresholds roc_auc.
          roc_curve env y_test y_prob = Inr (fpr, tpr, thresholds) \<and>
          auc env fpr tpr = Inr roc_auc \<and>
          roc_auc_sum s' = roc_auc_sum s + roc_auc \<and>
          evs = [Info ''Accuracy: %.2f'' [accuracy], Info ''Recall: %.2f'' [recall],
                 Info ''Precision: %.2f'' [precision], Info ''F-measure: %.2f'' [f1],
                 Info ''AUC: %.2f'' [roc_auc],
                 Plot fpr tpr (line_width c) color fold_index roc_auc])"
    "length y_test \<noteq> length y_prob \<longrightarrow>
       roc_auc_sum s' = roc_auc_sum s \<and>
       evs = [Info ''Accuracy: %.2f'' [accuracy], Info ''Recall: %.2f'' [recall],
              Info ''Precision: %.2f'' [precision], Info ''F-measure: %.2f'' [f1]]"
proof -
  from assms obtain accuracy where a: "accuracy_score env y_test y_pred = Inr accuracy"
    by (cases "accuracy_score env y_test y_pred") (simp_all add: binary_branch_def rbind_def)
  from assms a obtain recall where r: "recall_score env y_test y_pred Binary = Inr recall"
    by (cases "recall_score env y_test y_pred Binary") (simp_all add: binary_branch_def rbind_def)
  from assms a r obtain precision where p: "precision_score env y_test y_pred Binary = Inr precision"
    by (cases "precision_score env y_test y_pred Binary") (simp_all add: binary_branch_def rbind_def)
  from assms a r p obtain f1 where f: "f1_score env y_test y_pred Binary = Inr f1"
    by (cases "f1_score env y_test y_pred Binary") (simp_all add: binary_branch_def rbind_def)
  from assms a r p f obtain probs where pr: "predict_proba env (classifier c) X_test = Inr probs"
    by (cases "predict_proba env (classifier c) X_test")
       (simp_all add: binary_branch_def rbind_def Let_def)
  from assms a r p f pr obtain y_prob where yp: "column1 probs = Inr y_prob"
    by (cases "column1 probs") (simp_all add: binary_branch_def rbind_def Let_def)
  show ?thesis
  proof (cases "length y_test = length y_prob")
    case True
    with assms a r p f pr yp obtain fpr tpr thresholds where
      rc: "roc_curve env y_test y_prob = Inr (fpr, tpr, thresholds)"
      by (cases "roc_curve env y_test y_prob")
         (auto simp add: binary_branch_def rbind_def Let_def)
    with assms a r p f pr yp True obtain roc_auc where au: "auc env fpr tpr = Inr roc_auc"
      by (cases "auc env fpr tpr") (auto simp add: binary_branch_def rbind_def Let_def)
    from assms a r p f pr yp True rc au show ?thesis
      by (intro that [OF a r p f pr yp]) (auto simp add: binary_branch_def rbind_def Let_def)
  next
    case False
    with assms a r p f pr yp show ?thesis
      by (intro that [OF a r p f pr yp]) (auto simp add: binary_branch_def rbind_def Let_def)
  qed
qed

lemma macro_branch_Inr:
  assumes "macro_branch env s y_test y_pred = Inr (s', evs)"
  obtains recall precision f1 where
    "recall_score env y_test y_pred Macro = Inr recall"
    "precision_score env y_test y_pred Macro = Inr precision"
    "f1_score env y_test y_pred Macro = Inr f1"
    "s' = s\<lparr>recall_sum := recall_sum s + recall,
            precision_sum := precision_sum s + precision,
            f1_sum := f1_sum s + f1\<rparr>"
    "evs = [Info ''Recall: %.2f'' [recall], Info ''Precision: %.2f'' [precision],
            Info ''F-measure: %.2f'' [f1]]"
  using assms by (auto simp: macro_branch_def rbind_def split: sum.splits)

lemma train_Some_Inr:
  assumes "train env c (Some X_train) (Some y_train) = Inr (c2, p)"
  shows "c2 = c\<lparr>classifier := classifier c2\<rparr> \<and> p = classifier c2"
  using assms by (auto simp: train_def rbind_def split: if_splits sum.splits)

lemma next_color_fields:
  "self_X (snd (next_color c)) = self_X c"
  "self_y (snd (next_color c)) = self_y c"
  "binary_class (snd (next_color c)) = binary_class c"
  "snd (next_color c) = c\<lparr>colors := colors c + 1\<rparr>"
  by (simp_all add: next_color_def)

lemma evaluate_fold_unfold:
  "evaluate_fold env c s fold_index (train_index, test_index) =
      rbind (np_take (self_X c) train_index) (\<lambda>X_train.
      rbind (np_take (self_X c) test_index) (\<lambda>X_test.
      rbind (np_take (self_y c) train_index) (\<lambda>y_train.
      rbind (np_take (self_y c) test_index) (\<lambda>y_test.
      rbind (train env (snd (next_color c)) (Some X_train) (Some y_train)) (\<lambda>(c2, trained).
      rbind (predict env (classifier c2) X_test) (\<lambda>y_pred.
      rbind (if binary_class c2
             then binary_branch env c2 s (fst (next_color c)) fold_index X_test y_test y_pred
             else macro_branch env s y_test y_pred) (\<lambda>(s', evs).
      Inr (c2, s', evs))))))))"
  by (simp add: evaluate_fold_def Let_def split_def next_color_fields(1,2))

lemma evaluate_fold_Inr:
  assumes "evaluate_fold env c s fold_index (train_index, test_index) = Inr (c', s', evs)"
  obtains X_train X_test y_train y_test y_pred where
    "np_take (self_X c) train_index = Inr X_train"
    "np_take (self_X c) test_index = Inr X_test"
    "np_take (self_y c) train_index = Inr y_train"
    "np_take (self_y c) test_index = Inr y_test"
    "train env (snd (next_color c)) (Some X_train) (Some y_train) = Inr (c', classifier c')"
    "c' = c\<lparr>colors := colors c + 1, classifier := classifier c'\<rparr>"
    "predict env (classifier c') X_test = Inr y_pred"
    "(if binary_class c
      then binary_branch env c' s (fst (next_color c)) fold_index X_test y_test y_pred
      else macro_branch env s y_test y_pred) = Inr (s', evs)"
proof -
  let ?c1 = "snd (next_color c)"
  note unf = assms [unfolded evaluate_fold_unfold]
  from unf obtain X_train where a: "np_take (self_X c) train_index = Inr X_train"
    by (cases "np_take (self_X c) train_index") (simp_all add: rbind_def)
  from unf a obtain X_test where b: "np_take (self_X c) test_index = Inr X_test"
    by (cases "np_take (self_X c) test_index") (simp_all add: rbind_def)
  from unf a b obtain y_train where d: "np_take (self_y c) train_index = Inr y_train"
    by (cases "np_take (self_y c) train_index") (simp_all add: rbind_def)
  from unf a b d obtain y_test where e: "np_take (self_y c) test_index = Inr y_test"
    by (cases "np_take (self_y c) test_index") (simp_all add: rbind_def)
  from unf a b d e obtain c2 p where t: "train env ?c1 (Some X_train) (Some y_train) = Inr (c2, p)"
    by (cases "train env ?c1 (Some X_train) (Some y_train)") (auto simp add: rbind_def)
  note t2 = train_Some_Inr [OF t]
  from unf a b d e t obtain y_pred where pd: "predict env (classifier c2) X_test = Inr y_pred"
    by (cases "predict env (classifier c2) X_test") (auto simp add: rbind_def)
  from t2 have "binary_class c2 = binary_class (?c1\<lparr>classifier := classifier c2\<rparr>)" by simp
  then have bc: "binary_class c2 = binary_class c" by (simp add: next_color_fields)
  from unf a b d e t pd bc have br:
    "(if binary_class c
      then binary_branch env c2 s (fst (next_color c)) fold_index X_test y_test y_pred
      else macro_branch env s y_test y_pred) = Inr (s', evs)" and c': "c' = c2"
    by (auto simp add: rbind_def split: sum.splits if_splits)
  from t2 have "c2 = ?c1\<lparr>classifier := classifier c2\<rparr>" by simp
  then have cc: "c' = c\<lparr>colors := colors c + 1, classifier := classifier c'\<rparr>"
    using c' by (simp add: next_color_fields(4))
  show ?thesis
    using a b d e t t2 pd br cc c' by (intro that [of X_train X_test y_train y_test y_pred]) auto
qed


lemma logged_append: "logged msg (evs @ evs') = logged msg evs @ logged msg evs'"
  by (induction msg evs rule: logged.induct) simp_all

lemma evaluate_fold_class:
  assumes "evaluate_fold env c s fold_index f = Inr (c', s', evs)"
  shows "binary_class c' = binary_class c" and "folds_num c' = folds_num c"
    and "self_X c' = self_X c" and "self_y c' = self_y c"
proof -
  obtain train_index test_index where f: "f = (train_index, test_index)" by (cases f)
  from assms [unfolded f]
  have c: "c' = c\<lparr>colors := colors c + 1, classifier := classifier c'\<rparr>"
    by (rule evaluate_fold_Inr)
  show "binary_class c' = binary_class c" by (subst c) simp
  show "folds_num c' = folds_num c" by (subst c) simp
  show "self_X c' = self_X c" by (subst c) simp
  show "self_y c' = self_y c" by (subst c) simp
qed

lemma evaluate_fold_totals:
  assumes "evaluate_fold env c s fold_index f = Inr (c', s', evs)"
  shows "accuracy_sum s' = accuracy_sum s + sum_list (logged ''Accuracy: %.2f'' evs)"
    and "recall_sum s' = recall_sum s + sum_list (logged ''Recall: %.2f'' evs)"
    and "precision_sum s' = precision_sum s + sum_list (logged ''Precision: %.2f'' evs)"
    and "f1_sum s' = f1_sum s + sum_list (logged ''F-measure: %.2f'' evs)"
    and "roc_auc_sum s' = roc_auc_sum s + sum_list (logged ''AUC: %.2f'' evs)"
    and "length (logged ''Accuracy: %.2f'' evs) = (if binary_class c then 1 else 0)"
    and "length (logged ''Recall: %.2f'' evs) = 1"
    and "length (logged ''Precision: %.2f'' evs) = 1"
    and "length (logged ''F-measure: %.2f'' evs) = 1"
    and "logged ''Avg. accuracy: %.2f'' evs = []"
    and "logged ''Avg. recall: %.2f'' evs = []"
    and "logged ''Avg. precision: %.2f'' evs = []"
    and "logged ''Avg. F-measure: %.2f'' evs = []"
    and "logged ''Avg. AUC: %.2f'' evs = []"
proof -
  obtain train_index test_index where f: "f = (train_index, test_index)" by (cases f)
  from assms [unfolded f] obtain X_test y_test y_pred where
    br: "(if binary_class c
      then binary_branch env c' s (fst (next_color c)) fold_index X_test y_test y_pred
      else macro_branch env s y_test y_pred) = Inr (s', evs)"
    by (rule evaluate_fold_Inr)
  have "accuracy_sum s' = accuracy_sum s + sum_list (logged ''Accuracy: %.2f'' evs) \<and>
        recall_sum s' = recall_sum s + sum_list (logged ''Recall: %.2f'' evs) \<and>
        precision_sum s' = precision_sum s + sum_list (logged ''Precision: %.2f'' evs) \<and>
        f1_sum s' = f1_sum s + sum_list (logged ''F-measure: %.2f'' evs) \<and>
        roc_auc_sum s' = roc_auc_sum s + sum_list (logged ''AUC: %.2f'' evs) \<and>
        length (logged ''Accuracy: %.2f'' evs) = (if binary_class c then 1 else 0) \<and>
        length (logged ''Recall: %.2f'' evs) = 1 \<and>
        length (logged ''Precision: %.2f'' evs) = 1 \<and>
        length (logged ''F-measure: %.2f'' evs) = 1 \<and>
        logged ''Avg. accuracy: %.2f'' evs = [] \<and>
        logged ''Avg. recall: %.2f'' evs = [] \<and>
        logged ''Avg. precision: %.2f'' evs = [] \<and>
        logged ''Avg. F-measure: %.2f'' evs = [] \<and>
        logged ''Avg. AUC: %.2f'' evs = []"
  proof (cases "binary_class c")
    case True
    with br have b: "binary_branch env c' s (fst (next_color c)) fold_index X_test y_test y_pred
                     = Inr (s', evs)" by simp
    from b show ?thesis
    proof (rule binary_branch_Inr)
      fix accuracy recall precision f1 probs y_prob
      assume sums: "accuracy_sum s' = accuracy_sum s + accuracy"
        "recall_sum s' = recall_sum s + recall"
        "precision_sum s' = precision_sum s + precision"
        "f1_sum s' = f1_sum s + f1"
      and eq: "length y_test = length y_prob \<longrightarrow>
       (\<exists>fpr tpr thresholds roc_auc.
          roc_curve env y_test y_prob = Inr (fpr, tpr, thresholds) \<and>
          auc env fpr tpr = Inr roc_auc \<and>
          roc_auc_sum s' = roc_auc_sum s + roc_auc \<and>
          evs = [Info ''Accuracy: %.2f'' [accuracy], Info ''Recall: %.2f'' [recall],
                 Info ''Precision: %.2f'' [precision], Info ''F-measure: %.2f'' [f1],
                 Info ''AUC: %.2f'' [roc_auc],
                 Plot fpr tpr (line_width c') (fst (next_color c)) fold_index roc_auc])"
      and ne: "length y_test \<noteq> length y_prob \<longrightarrow>
       roc_auc_sum s' = roc_auc_sum s \<and>
       evs = [Info ''Accuracy: %.2f'' [accuracy], Info ''Recall: %.2f'' [recall],
              Info ''Precision: %.2f'' [precision], Info ''F-measure: %.2f'' [f1]]"
      show ?thesis
      proof (cases "length y_test = length y_prob")
        case True
        with eq obtain fpr tpr roc_auc where
          "roc_auc_sum s' = roc_auc_sum s + roc_auc"
          "evs = [Info ''Accuracy: %.2f'' [accuracy], Info ''Recall: %.2f'' [recall],
                 Info ''Precision: %.2f'' [precision], Info ''F-measure: %.2f'' [f1],
                 Info ''AUC: %.2f'' [roc_auc],
                 Plot fpr tpr (line_width c') (fst (next_color c)) fold_index roc_auc]"
          by blast
        with sums \<open>binary_class c\<close> show ?thesis by simp
      next
        case False
        with ne have "roc_auc_sum s' = roc_auc_sum s"
          "evs = [Info ''Accuracy: %.2f'' [accuracy], Info ''Recall: %.2f'' [recall],
              Info ''Precision: %.2f'' [precision], Info ''F-measure: %.2f'' [f1]]"
          by simp_all
        with sums \<open>binary_class c\<close> show ?thesis by simp
      qed
    qed
  next
    case False
    with br have m: "macro_branch env s y_test y_pred = Inr (s', evs)" by simp
    from m show ?thesis
    proof (rule macro_branch_Inr)
      fix recall precision f1
      assume "s' = s\<lparr>recall_sum := recall_sum s + recall,
            precision_sum := precision_sum s + precision,
            f1_sum := f1_sum s + f1\<rparr>"
        and "evs = [Info ''Recall: %.2f'' [recall], Info ''Precision: %.2f'' [precision],
            Info ''F-measure: %.2f'' [f1]]"
      with False show ?thesis by simp
    qed
  qed
  then show "accuracy_sum s' = accuracy_sum s + sum_list (logged ''Accuracy: %.2f'' evs)"
    and "recall_sum s' = recall_sum s + sum_list (logged ''Recall: %.2f'' evs)"
    and "precision_sum s' = precision_sum s + sum_list (logged ''Precision: %.2f'' evs)"
    and "f1_sum s' = f1_sum s + sum_list (logged ''F-measure: %.2f'' evs)"
    and "roc_auc_sum s' = roc_auc_sum s + sum_list (logged ''AUC: %.2f'' evs)"
    and "length (logged ''Accuracy: %.2f'' evs) = (if binary_class c then 1 else 0)"
    and "length (logged ''Recall: %.2f'' evs) = 1"
    and "length (logged ''Precision: %.2f'' evs) = 1"
    and "length (logged ''F-measure: %.2f'' evs) = 1"
    and "logged ''Avg. accuracy: %.2f'' evs = []"
    and "logged ''Avg. recall: %.2f'' evs = []"
    and "logged ''Avg. precision: %.2f'' evs = []"
    and "logged ''Avg. F-measure: %.2f'' evs = []"
    and "logged ''Avg. AUC: %.2f'' evs = []"
    by blast+
qed


lemma evaluate_loop_Cons_Inr:
  assumes "evaluate_loop env c s fold_index (f # fs) = Inr (c', s', evs)"
  obtains c1 s1 evs1 evs2 where
    "evaluate_fold env c s fold_index f = Inr (c1, s1, evs1)"
    "evaluate_loop env c1 s1 fold_index fs = Inr (c', s', evs2)"
    "evs = evs1 @ evs2"
  using assms by (auto simp: rbind_def split: sum.splits)

lemma evaluate_loop_totals:
  "evaluate_loop env c s fold_index folds = Inr (c', s', evs) \<Longrightarrow>
   accuracy_sum s' = accuracy_sum s + sum_list (logged ''Accuracy: %.2f'' evs) \<and>
   recall_sum s' = recall_sum s + sum_list (logged ''Recall: %.2f'' evs) \<and>
   precision_sum s' = precision_sum s + sum_list (logged ''Precision: %.2f'' evs) \<and>
   f1_sum s' = f1_sum s + sum_list (logged ''F-measure: %.2f'' evs) \<and>
   roc_auc_sum s' = roc_auc_sum s + sum_list (logged ''AUC: %.2f'' evs) \<and>
   logged ''Avg. accuracy: %.2f'' evs = [] \<and>
   logged ''Avg. recall: %.2f'' evs = [] \<and>
   logged ''Avg. precision: %.2f'' evs = [] \<and>
   logged ''Avg. F-measure: %.2f'' evs = [] \<and>
   logged ''Avg. AUC: %.2f'' evs = [] \<and>
   binary_class c' = binary_class c \<and> folds_num c' = folds_num c"
proof (induction folds arbitrary: c s evs)
  case Nil
  then show ?case by simp
next
  case (Cons f fs)
  from Cons.prems obtain c1 s1 evs1 evs2 where
    fold: "evaluate_fold env c s fold_index f = Inr (c1, s1, evs1)" and
    rest: "evaluate_loop env c1 s1 fold_index fs = Inr (c', s', evs2)" and
    evs: "evs = evs1 @ evs2"
    by (rule evaluate_loop_Cons_Inr)
  note t = evaluate_fold_totals [OF fold] and k = evaluate_fold_class [OF fold]
    and ih = Cons.IH [OF rest]
  show ?case
    unfolding evs logged_append sum_list_append
    using ih t(1-5) t(10-14) k(1,2) by simp
qed

lemma evaluate_loop_counts:
  "evaluate_loop env c s fold_index folds = Inr (c', s', evs) \<Longrightarrow>
   length (logged ''Accuracy: %.2f'' evs) = (if binary_class c then length folds else 0) \<and>
   length (logged ''Recall: %.2f'' evs) = length folds \<and>
   length (logged ''Precision: %.2f'' evs) = length folds \<and>
   length (logged ''F-measure: %.2f'' evs) = length folds"
proof (induction folds arbitrary: c s evs)
  case Nil
  then show ?case by simp
next
  case (Cons f fs)
  from Cons.prems obtain c1 s1 evs1 evs2 where
    fold: "evaluate_fold env c s fold_index f = Inr (c1, s1, evs1)" and
    rest: "evaluate_loop env c1 s1 fold_index fs = Inr (c', s', evs2)" and
    evs: "evs = evs1 @ evs2"
    by (rule evaluate_loop_Cons_Inr)
  note t = evaluate_fold_totals [OF fold] and k = evaluate_fold_class [OF fold]
    and ih = Cons.IH [OF rest]
  show ?case
    unfolding evs logged_append length_append
    using ih t(6-9) k(1) by simp
qed

lemma evaluate_Inr:
  assumes "evaluate env c = Inr (c', evs)"
  obtains folds s evs1 avgs where
    "kfold_split env (cv c) (self_X c) (self_y c) = Inr folds"
    "evaluate_loop env c zero_sums 1 folds = Inr (c', s, evs1)"
    "report c' s = Inr avgs"
    "evs = Info (''Evaluating '' @ classifier_type c @ '' classifier'') [] # evs1 @ avgs"
  using assms by (auto simp: evaluate_def rbind_def split: sum.splits)

lemma report_Inr:
  assumes "report c s = Inr avgs"
  shows "folds_num c \<noteq> 0"
    and "logged ''Avg. accuracy: %.2f'' avgs =
           (if binary_class c then [accuracy_sum s / real_of_int (folds_num c)] else [])"
    and "logged ''Avg. recall: %.2f'' avgs = [recall_sum s / real_of_int (folds_num c)]"
    and "logged ''Avg. precision: %.2f'' avgs = [precision_sum s / real_of_int (folds_num c)]"
    and "logged ''Avg. F-measure: %.2f'' avgs = [f1_sum s / real_of_int (folds_num c)]"
    and "logged ''Avg. AUC: %.2f'' avgs =
           (if binary_class c \<and> roc_auc_sum s > 0
            then [roc_auc_sum s / real_of_int (folds_num c)] else [])"
    and "logged ''Accuracy: %.2f'' avgs = []"
    and "logged ''Recall: %.2f'' avgs = []"
    and "logged ''Precision: %.2f'' avgs = []"
    and "logged ''F-measure: %.2f'' avgs = []"
    and "logged ''AUC: %.2f'' avgs = []"
  using assms by (auto simp: report_def split: if_splits)

lemma np_take_length: "np_take xs idx = Inr vs \<Longrightarrow> length vs = length idx"
  by (induction idx arbitrary: vs) (auto simp: rbind_def split: sum.splits)

lemma logged_no_values [simp]: "logged msg (Info m [] # evs) = logged msg evs"
  by simp

lemma sum_list_le_length:
  "\<forall>v\<in>set vs. v \<le> (1::real) \<Longrightarrow> sum_list vs \<le> real (length vs)"
  by (induction vs) auto

subsection \<open>\<^verbatim>\<open>evaluate\<close>: the averages\<close>

text \<open>Unfolding the methods and the test double, for running examples.\<close>

lemmas run_defs =
  evaluate_def evaluate_fold_def binary_branch_def macro_branch_def train_def report_def
  column1_def spy_env_def two_rows_env_def spy_accuracy_def next_color_def palette_def
  rbind_def np_get_def zero_sums_def Let_def

lemma evaluate_uneven_run:
  "evaluate (two_rows_env uneven3) (example ''svm'' True) = Inr uneven_run"
  by (simp add: run_defs example_def uneven3_def uneven_run_def)

lemma evaluate_loo10_run: "evaluate (spy_env loo10) (example10 True) = Inr loo10_run"
  by (simp add: run_defs example10_def loo10_def loo10_run_def)

text \<open>
  Claim C3.  After a completed run of \<^verbatim>\<open>evaluate\<close>, every average that is logged is the
  sum of the values logged per fold under the matching message, divided by
  \<^verbatim>\<open>self.folds_num\<close>: not by the number of folds, and not by the number of values that
  were summed.  For the AUC the sum runs over the folds that computed one, and the
  divisor is still \<^verbatim>\<open>self.folds_num\<close>.  (The average accuracy is logged in binary mode
  only, the average AUC only in binary mode with a positive sum.)
\<close>

theorem evaluate_averages_divide_by_folds_num:
  assumes "evaluate env c = Inr (c', evs)"
  shows "folds_num c \<noteq> 0 \<and>
    logged ''Avg. accuracy: %.2f'' evs =
      (if binary_class c
       then [sum_list (logged ''Accuracy: %.2f'' evs) / real_of_int (folds_num c)] else []) \<and>
    logged ''Avg. recall: %.2f'' evs =
      [sum_list (logged ''Recall: %.2f'' evs) / real_of_int (folds_num c)] \<and>
    logged ''Avg. precision: %.2f'' evs =
      [sum_list (logged ''Precision: %.2f'' evs) / real_of_int (folds_num c)] \<and>
    logged ''Avg. F-measure: %.2f'' evs =
      [sum_list (logged ''F-measure: %.2f'' evs) / real_of_int (folds_num c)] \<and>
    logged ''Avg. AUC: %.2f'' evs =
      (if binary_class c \<and> 0 < sum_list (logged ''AUC: %.2f'' evs)
       then [sum_list (logged ''AUC: %.2f'' evs) / real_of_int (folds_num c)] else [])"
proof -
  from assms obtain folds s evs1 avgs where
    loop: "evaluate_loop env c zero_sums 1 folds = Inr (c', s, evs1)" and
    rep: "report c' s = Inr avgs" and
    evs: "evs = Info (''Evaluating '' @ classifier_type c @ '' classifier'') [] # evs1 @ avgs"
    by (rule evaluate_Inr)
  note t = evaluate_loop_totals [OF loop] and r = report_Inr [OF rep]
  from t have c': "binary_class c' = binary_class c" "folds_num c' = folds_num c" by simp_all
  from t have sums:
    "accuracy_sum s = sum_list (logged ''Accuracy: %.2f'' evs1)"
    "recall_sum s = sum_list (logged ''Recall: %.2f'' evs1)"
    "precision_sum s = sum_list (logged ''Precision: %.2f'' evs1)"
    "f1_sum s = sum_list (logged ''F-measure: %.2f'' evs1)"
    "roc_auc_sum s = sum_list (logged ''AUC: %.2f'' evs1)"
    by (simp_all add: zero_sums_def)
  from t have none:
    "logged ''Avg. accuracy: %.2f'' evs1 = []" "logged ''Avg. recall: %.2f'' evs1 = []"
    "logged ''Avg. precision: %.2f'' evs1 = []" "logged ''Avg. F-measure: %.2f'' evs1 = []"
    "logged ''Avg. AUC: %.2f'' evs1 = []"
    by simp_all
  have l: "logged msg evs = logged msg evs1 @ logged msg avgs" for msg
    unfolding evs by (simp only: logged_no_values logged_append)
  show ?thesis
    unfolding l none r(2-11) using r(1) by (simp add: c' sums)
qed

theorem evaluate_averages_divide_by_folds_num_witness:
  "evaluate (two_rows_env uneven3) (example ''svm'' True) = Inr uneven_run \<and>
   folds_num (example ''svm'' True) = 10 \<and>
   logged ''AUC: %.2f'' (snd uneven_run) = [1 / 2] \<and>
   logged ''Avg. AUC: %.2f'' (snd uneven_run) = [(1 / 2) / 10] \<and>
   logged ''Accuracy: %.2f'' (snd uneven_run) = [1 / 2, 1 / 3, 0] \<and>
   logged ''Avg. accuracy: %.2f'' (snd uneven_run) = [(1 / 2 + 1 / 3 + 0) / 10]"
proof -
  have run: "evaluate (two_rows_env uneven3) (example ''svm'' True) =
               Inr (fst uneven_run, snd uneven_run)"
    by (simp add: evaluate_uneven_run)
  have "logged ''AUC: %.2f'' (snd uneven_run) = [1 / 2]"
    and "logged ''Accuracy: %.2f'' (snd uneven_run) = [1 / 2, 1 / 3, 0]"
    and "folds_num (example ''svm'' True) = 10"
    and "binary_class (example ''svm'' True)"
    by (simp_all add: uneven_run_def example_def)
  with evaluate_averages_divide_by_folds_num [OF run] evaluate_uneven_run show ?thesis by simp
qed

text \<open>
  Claim C8.  The library is assumed to keep its contract that the planner returns as many
  folds as it was configured for, and the object to have the fold count that \<^verbatim>\<open>__init__\<close>
  gave both to \<^verbatim>\<open>self.folds_num\<close> and to the planner.  Then, after a completed run in
  which every accuracy, recall, precision and F1 value logged for a fold lies in \<open>[0, 1]\<close>,
  every average logged for these four metrics lies in \<open>[0, 1]\<close>.
\<close>

theorem evaluate_averages_in_unit_interval:
  assumes "evaluate env c = Inr (c', evs)"
    and "\<forall>folds. kfold_split env (cv c) (self_X c) (self_y c) = Inr folds \<longrightarrow>
                 int (length folds) = n_splits (cv c)"
    and "n_splits (cv c) = folds_num c"
    and "\<forall>v\<in>set (logged ''Accuracy: %.2f'' evs @ logged ''Recall: %.2f'' evs @
                  logged ''Precision: %.2f'' evs @ logged ''F-measure: %.2f'' evs).
           0 \<le> v \<and> v \<le> 1"
  shows "\<forall>v\<in>set (logged ''Avg. accuracy: %.2f'' evs @ logged ''Avg. recall: %.2f'' evs @
                  logged ''Avg. precision: %.2f'' evs @ logged ''Avg. F-measure: %.2f'' evs).
           0 \<le> v \<and> v \<le> 1"
proof -
  from assms(1) obtain folds s evs1 avgs where
    split: "kfold_split env (cv c) (self_X c) (self_y c) = Inr folds" and
    loop: "evaluate_loop env c zero_sums 1 folds = Inr (c', s, evs1)" and
    rep: "report c' s = Inr avgs" and
    evs: "evs = Info (''Evaluating '' @ classifier_type c @ '' classifier'') [] # evs1 @ avgs"
    by (rule evaluate_Inr)
  note t = evaluate_loop_totals [OF loop] and n = evaluate_loop_counts [OF loop]
    and r = report_Inr [OF rep]
  from t have c': "binary_class c' = binary_class c" "folds_num c' = folds_num c" by simp_all
  from split assms(2,3) have k: "real_of_int (folds_num c) = real (length folds)" by simp
  from r(1) c' have "real_of_int (folds_num c) \<noteq> 0" by simp
  with k have pos: "0 < real (length folds)" by simp
  have l: "logged msg evs = logged msg evs1 @ logged msg avgs" for msg
    unfolding evs by (simp only: logged_no_values logged_append)
  have bound: "0 \<le> sum_list vs / real (length folds) \<and> sum_list vs / real (length folds) \<le> 1"
    if len: "length vs = length folds" and vs: "\<forall>v\<in>set vs. 0 \<le> v \<and> v \<le> (1::real)" for vs
  proof -
    from vs have "0 \<le> sum_list vs" by (simp add: sum_list_nonneg)
    moreover from vs have "sum_list vs \<le> real (length vs)"
      by (intro sum_list_le_length) simp
    then have "sum_list vs \<le> real (length folds)"
      by (simp add: len)
    ultimately show ?thesis using pos by (simp add: divide_le_eq)
  qed
  have per: "\<forall>v\<in>set (logged ''Accuracy: %.2f'' evs1). 0 \<le> v \<and> v \<le> 1"
    "\<forall>v\<in>set (logged ''Recall: %.2f'' evs1). 0 \<le> v \<and> v \<le> 1"
    "\<forall>v\<in>set (logged ''Precision: %.2f'' evs1). 0 \<le> v \<and> v \<le> 1"
    "\<forall>v\<in>set (logged ''F-measure: %.2f'' evs1). 0 \<le> v \<and> v \<le> 1"
    using assms(4) unfolding l by auto
  from t have sums:
    "accuracy_sum s = sum_list (logged ''Accuracy: %.2f'' evs1)"
    "recall_sum s = sum_list (logged ''Recall: %.2f'' evs1)"
    "precision_sum s = sum_list (logged ''Precision: %.2f'' evs1)"
    "f1_sum s = sum_list (logged ''F-measure: %.2f'' evs1)"
    by (simp_all add: zero_sums_def)
  from t have none:
    "logged ''Avg. accuracy: %.2f'' evs1 = []" "logged ''Avg. recall: %.2f'' evs1 = []"
    "logged ''Avg. precision: %.2f'' evs1 = []" "logged ''Avg. F-measure: %.2f'' evs1 = []"
    by simp_all
  have a: "binary_class c \<Longrightarrow>
      0 \<le> accuracy_sum s / real (length folds) \<and> accuracy_sum s / real (length folds) \<le> 1"
    unfolding sums using n per(1) by (intro bound) simp_all
  have b: "0 \<le> recall_sum s / real (length folds) \<and> recall_sum s / real (length folds) \<le> 1"
    unfolding sums using n per(2) by (intro bound) simp_all
  have d: "0 \<le> precision_sum s / real (length folds) \<and>
           precision_sum s / real (length folds) \<le> 1"
    unfolding sums using n per(3) by (intro bound) simp_all
  have e: "0 \<le> f1_sum s / real (length folds) \<and> f1_sum s / real (length folds) \<le> 1"
    unfolding sums using n per(4) by (intro bound) simp_all
  show ?thesis
    unfolding l none r(2-5) c' k using a b d e by simp
qed

theorem evaluate_averages_in_unit_interval_witness:
  "evaluate (spy_env loo10) (example10 True) = Inr loo10_run \<and>
   int (length loo10) = n_splits (cv (example10 True)) \<and>
   n_splits (cv (example10 True)) = folds_num (example10 True) \<and>
   logged ''Accuracy: %.2f'' (snd loo10_run) = [0, 1, 0, 1, 0, 1, 0, 1, 0, 1] \<and>
   logged ''Avg. accuracy: %.2f'' (snd loo10_run) = [1 / 2] \<and>
   logged ''Avg. recall: %.2f'' (snd loo10_run) = [1 / 2] \<and>
   logged ''Avg. precision: %.2f'' (snd loo10_run) = [1 / 2] \<and>
   logged ''Avg. F-measure: %.2f'' (snd loo10_run) = [1 / 2]"
proof -
  have run: "evaluate (spy_env loo10) (example10 True) = Inr (fst loo10_run, snd loo10_run)"
    by (simp add: evaluate_loo10_run)
  have per:
    "logged ''Accuracy: %.2f'' (snd loo10_run) = [0, 1, 0, 1, 0, 1, 0, 1, 0, 1]"
    "logged ''Recall: %.2f'' (snd loo10_run) = [0, 1, 0, 1, 0, 1, 0, 1, 0, 1]"
    "logged ''Precision: %.2f'' (snd loo10_run) = [0, 1, 0, 1, 0, 1, 0, 1, 0, 1]"
    "logged ''F-measure: %.2f'' (snd loo10_run) = [0, 1, 0, 1, 0, 1, 0, 1, 0, 1]"
    by (simp_all add: loo10_run_def)
  have avg:
    "logged ''Avg. accuracy: %.2f'' (snd loo10_run) = [1 / 2]"
    "logged ''Avg. recall: %.2f'' (snd loo10_run) = [1 / 2]"
    "logged ''Avg. precision: %.2f'' (snd loo10_run) = [1 / 2]"
    "logged ''Avg. F-measure: %.2f'' (snd loo10_run) = [1 / 2]"
    by (simp_all add: loo10_run_def)
  have plan: "\<forall>folds. kfold_split (spy_env loo10) (cv (example10 True))
                 (self_X (example10 True)) (self_y (example10 True)) = Inr folds \<longrightarrow>
               int (length folds) = n_splits (cv (example10 True))"
    by (simp add: spy_env_def example10_def loo10_def)
  have k: "n_splits (cv (example10 True)) = folds_num (example10 True)"
    by (simp add: example10_def)
  have len: "int (length loo10) = n_splits (cv (example10 True))"
    by (simp add: example10_def loo10_def)
  have bounds: "\<forall>v\<in>set (logged ''Accuracy: %.2f'' (snd loo10_run) @
                  logged ''Recall: %.2f'' (snd loo10_run) @
                  logged ''Precision: %.2f'' (snd loo10_run) @
                  logged ''F-measure: %.2f'' (snd loo10_run)).
           0 \<le> v \<and> v \<le> 1"
    unfolding per by simp
  from evaluate_averages_in_unit_interval [OF run plan k bounds] evaluate_loo10_run len k per(1) avg
  show ?thesis by simp
qed

subsection \<open>\<^verbatim>\<open>evaluate\<close>: the two modes\<close>

lemma evaluate_fold_multiclass_accuracy_unused:
  assumes "\<not> binary_class c"
  shows "evaluate_fold (env\<lparr>accuracy_score := a\<rparr>) c s fold_index f =
         evaluate_fold env c s fold_index f"
proof -
  obtain train_index test_index where f: "f = (train_index, test_index)" by (cases f)
  show ?thesis
    unfolding f evaluate_fold_unfold
    using assms
    by (simp add: train_def rbind_def macro_branch_def next_color_def split: sum.splits)
qed

lemma evaluate_loop_multiclass_accuracy_unused:
  "\<not> binary_class c \<Longrightarrow>
   evaluate_loop (env\<lparr>accuracy_score := a\<rparr>) c s fold_index folds =
   evaluate_loop env c s fold_index folds"
proof (induction folds arbitrary: c s)
  case Nil
  show ?case by simp
next
  case (Cons f fs)
  note fold = evaluate_fold_multiclass_accuracy_unused [OF Cons.prems]
  show ?case
  proof (cases "evaluate_fold env c s fold_index f")
    case (Inl e)
    with fold show ?thesis by (simp add: rbind_def)
  next
    case (Inr r)
    obtain c1 s1 evs1 where r: "r = (c1, s1, evs1)" by (cases r)
    from Inr r have "binary_class c1 = binary_class c" by (simp add: evaluate_fold_class(1))
    with Cons.prems have "\<not> binary_class c1" by simp
    from Cons.IH [OF this] fold Inr r show ?thesis by (simp add: rbind_def)
  qed
qed

lemma evaluate_multiclass_accuracy_unused:
  "\<not> binary_class c \<Longrightarrow> evaluate (env\<lparr>accuracy_score := a\<rparr>) c = evaluate env c"
  by (simp add: evaluate_def evaluate_loop_multiclass_accuracy_unused)

lemma evaluate_loop_multiclass_logs:
  "evaluate_loop env c s fold_index folds = Inr (c', s', evs) \<Longrightarrow> \<not> binary_class c \<Longrightarrow>
   logged ''Accuracy: %.2f'' evs = [] \<and> logged ''AUC: %.2f'' evs = [] \<and>
   accuracy_sum s' = accuracy_sum s \<and> roc_auc_sum s' = roc_auc_sum s"
proof (induction folds arbitrary: c s evs)
  case Nil
  then show ?case by simp
next
  case (Cons f fs)
  from Cons.prems(1) obtain c1 s1 evs1 evs2 where
    fold: "evaluate_fold env c s fold_index f = Inr (c1, s1, evs1)" and
    rest: "evaluate_loop env c1 s1 fold_index fs = Inr (c', s', evs2)" and
    evs: "evs = evs1 @ evs2"
    by (rule evaluate_loop_Cons_Inr)
  obtain train_index test_index where f: "f = (train_index, test_index)" by (cases f)
  from fold [unfolded f] obtain X_test y_test y_pred where
    "(if binary_class c
      then binary_branch env c1 s (fst (next_color c)) fold_index X_test y_test y_pred
      else macro_branch env s y_test y_pred) = Inr (s1, evs1)"
    by (rule evaluate_fold_Inr)
  with Cons.prems(2) have m: "macro_branch env s y_test y_pred = Inr (s1, evs1)" by simp
  from m have one: "logged ''Accuracy: %.2f'' evs1 = [] \<and> logged ''AUC: %.2f'' evs1 = [] \<and>
     accuracy_sum s1 = accuracy_sum s \<and> roc_auc_sum s1 = roc_auc_sum s"
    by (rule macro_branch_Inr) simp
  from fold Cons.prems(2) have "\<not> binary_class c1" by (simp add: evaluate_fold_class(1))
  from Cons.IH [OF rest this] one show ?case by (simp add: evs logged_append)
qed

lemma evaluate_multiclass_run:
  "evaluate (macro_only_env plan3) (example ''svm'' False) = Inr multiclass_run"
  by (simp add: run_defs macro_only_env_def example_def plan3_def multiclass_run_def)

text \<open>
  Claim C7.  In multiclass mode (\<^verbatim>\<open>binary_class\<close> false) a fold computes recall, precision
  and F1 with \<^verbatim>\<open>average='macro'\<close>, adds them to their sums and logs exactly these three
  values.  Accuracy is not computed: a run logs no accuracy, neither for a fold nor as an
  average, and its outcome is the same whatever the accuracy function of the library is.
\<close>

theorem evaluate_multiclass_macro_without_accuracy:
  assumes "\<not> binary_class c"
  shows
   "(evaluate_fold env c s fold_index (train_index, test_index) = Inr (c_fold, s_fold, evs_fold) \<longrightarrow>
      (\<exists>X_test y_test y_pred recall precision f1.
         np_take (self_X c) test_index = Inr X_test \<and>
         np_take (self_y c) test_index = Inr y_test \<and>
         predict env (classifier c_fold) X_test = Inr y_pred \<and>
         recall_score env y_test y_pred Macro = Inr recall \<and>
         precision_score env y_test y_pred Macro = Inr precision \<and>
         f1_score env y_test y_pred Macro = Inr f1 \<and>
         s_fold = s\<lparr>recall_sum := recall_sum s + recall,
                 precision_sum := precision_sum s + precision,
                 f1_sum := f1_sum s + f1\<rparr> \<and>
         evs_fold = [Info ''Recall: %.2f'' [recall], Info ''Precision: %.2f'' [precision],
                 Info ''F-measure: %.2f'' [f1]])) \<and>
    (evaluate env c = Inr (c', evs) \<longrightarrow>
       logged ''Accuracy: %.2f'' evs = [] \<and> logged ''Avg. accuracy: %.2f'' evs = []) \<and>
    evaluate (env\<lparr>accuracy_score := a\<rparr>) c = evaluate env c"
proof (intro conjI impI)
  assume fold: "evaluate_fold env c s fold_index (train_index, test_index) = Inr (c_fold, s_fold, evs_fold)"
  from fold obtain X_test y_test y_pred where
    X: "np_take (self_X c) test_index = Inr X_test" and
    y: "np_take (self_y c) test_index = Inr y_test" and
    p: "predict env (classifier c_fold) X_test = Inr y_pred" and
    br: "(if binary_class c
          then binary_branch env c_fold s (fst (next_color c)) fold_index X_test y_test y_pred
          else macro_branch env s y_test y_pred) = Inr (s_fold, evs_fold)"
    by (rule evaluate_fold_Inr)
  from br assms have m: "macro_branch env s y_test y_pred = Inr (s_fold, evs_fold)" by simp
  from m obtain recall precision f1 where
    "recall_score env y_test y_pred Macro = Inr recall"
    "precision_score env y_test y_pred Macro = Inr precision"
    "f1_score env y_test y_pred Macro = Inr f1"
    "s_fold = s\<lparr>recall_sum := recall_sum s + recall,
            precision_sum := precision_sum s + precision,
            f1_sum := f1_sum s + f1\<rparr>"
    "evs_fold = [Info ''Recall: %.2f'' [recall], Info ''Precision: %.2f'' [precision],
            Info ''F-measure: %.2f'' [f1]]"
    by (rule macro_branch_Inr)
  with X y p show "\<exists>X_test y_test y_pred recall precision f1.
         np_take (self_X c) test_index = Inr X_test \<and>
         np_take (self_y c) test_index = Inr y_test \<and>
         predict env (classifier c_fold) X_test = Inr y_pred \<and>
         recall_score env y_test y_pred Macro = Inr recall \<and>
         precision_score env y_test y_pred Macro = Inr precision \<and>
         f1_score env y_test y_pred Macro = Inr f1 \<and>
         s_fold = s\<lparr>recall_sum := recall_sum s + recall,
                 precision_sum := precision_sum s + precision,
                 f1_sum := f1_sum s + f1\<rparr> \<and>
         evs_fold = [Info ''Recall: %.2f'' [recall], Info ''Precision: %.2f'' [precision],
                 Info ''F-measure: %.2f'' [f1]]"
    by blast
next
  assume run: "evaluate env c = Inr (c', evs)"
  from run obtain folds s2 evs2 avgs where
    loop: "evaluate_loop env c zero_sums 1 folds = Inr (c', s2, evs2)" and
    rep: "report c' s2 = Inr avgs" and
    evs: "evs = Info (''Evaluating '' @ classifier_type c @ '' classifier'') [] # evs2 @ avgs"
    by (rule evaluate_Inr)
  note t = evaluate_loop_totals [OF loop] and m = evaluate_loop_multiclass_logs [OF loop assms]
    and r = report_Inr [OF rep]
  from t assms have c': "\<not> binary_class c'" by simp
  have l: "logged msg evs = logged msg evs2 @ logged msg avgs" for msg
    unfolding evs by (simp only: logged_no_values logged_append)
  from t m r(2,7) c' show "logged ''Accuracy: %.2f'' evs = []"
    and "logged ''Avg. accuracy: %.2f'' evs = []"
    unfolding l by simp_all
next
  from assms show "evaluate (env\<lparr>accuracy_score := a\<rparr>) c = evaluate env c"
    by (rule evaluate_multiclass_accuracy_unused)
qed

theorem evaluate_multiclass_macro_without_accuracy_witness:
  "\<not> binary_class (example ''svm'' False) \<and>
   evaluate_fold (macro_only_env plan3) (example ''svm'' False) zero_sums 1
       ([2, 3, 4, 5], [0, 1]) =
     Inr ((example ''svm'' False)
            \<lparr>colors := 1,
             classifier := (SVC [(''class_weight'', PyStr ''balanced''),
                                 (''probability'', PyBool True)],
                            Some (Some [[2], [3], [4], [5]], Some [- 1, 1, - 3, 0]))\<rparr>,
          zero_sums\<lparr>recall_sum := 1 / 2, precision_sum := 1 / 2, f1_sum := 1 / 2\<rparr>,
          [Info ''Recall: %.2f'' [1 / 2], Info ''Precision: %.2f'' [1 / 2],
           Info ''F-measure: %.2f'' [1 / 2]]) \<and>
   evaluate (macro_only_env plan3) (example ''svm'' False) = Inr multiclass_run \<and>
   logged ''Accuracy: %.2f'' (snd multiclass_run) = [] \<and>
   logged ''Avg. accuracy: %.2f'' (snd multiclass_run) = [] \<and>
   evaluate ((macro_only_env plan3)\<lparr>accuracy_score := spy_accuracy\<rparr>) (example ''svm'' False) =
     Inr multiclass_run"
proof -
  have m: "\<not> binary_class (example ''svm'' False)" by (simp add: example_def)
  have fold: "evaluate_fold (macro_only_env plan3) (example ''svm'' False) zero_sums 1
       ([2, 3, 4, 5], [0, 1]) =
     Inr ((example ''svm'' False)
            \<lparr>colors := 1,
             classifier := (SVC [(''class_weight'', PyStr ''balanced''),
                                 (''probability'', PyBool True)],
                            Some (Some [[2], [3], [4], [5]], Some [- 1, 1, - 3, 0]))\<rparr>,
          zero_sums\<lparr>recall_sum := 1 / 2, precision_sum := 1 / 2, f1_sum := 1 / 2\<rparr>,
          [Info ''Recall: %.2f'' [1 / 2], Info ''Precision: %.2f'' [1 / 2],
           Info ''F-measure: %.2f'' [1 / 2]])"
    by (simp add: run_defs macro_only_env_def example_def)
  have run: "evaluate (macro_only_env plan3) (example ''svm'' False) =
               Inr (fst multiclass_run, snd multiclass_run)"
    by (simp add: evaluate_multiclass_run)
  from evaluate_multiclass_macro_without_accuracy [OF m, where env = "macro_only_env plan3" and s = zero_sums and fold_index = 1
      and train_index = "[2, 3, 4, 5]" and test_index = "[0, 1]"
      and c_fold = "(example ''svm'' False)
            \<lparr>colors := 1,
             classifier := (SVC [(''class_weight'', PyStr ''balanced''),
                                 (''probability'', PyBool True)],
                            Some (Some [[2], [3], [4], [5]], Some [- 1, 1, - 3, 0]))\<rparr>"
      and s_fold = "zero_sums\<lparr>recall_sum := 1 / 2, precision_sum := 1 / 2, f1_sum := 1 / 2\<rparr>"
      and evs_fold = "[Info ''Recall: %.2f'' [1 / 2], Info ''Precision: %.2f'' [1 / 2],
           Info ''F-measure: %.2f'' [1 / 2]]"
      and c' = "fst multiclass_run" and evs = "snd multiclass_run" and a = spy_accuracy]
    m fold run evaluate_multiclass_run
  show ?thesis by simp
qed

text \<open>When the lengths differ, a binary fold calls neither \<open>roc_curve\<close> nor \<open>auc\<close>.\<close>

lemma train_roc_unused:
  "train (env\<lparr>roc_curve := r, auc := a\<rparr>) c X_train y_train = train env c X_train y_train"
  by (simp add: train_def)

lemma binary_branch_roc_unused:
  assumes "predict_proba env (classifier c) X_test = Inr probs"
    and "column1 probs = Inr y_prob"
    and "length y_test \<noteq> length y_prob"
  shows "binary_branch (env\<lparr>roc_curve := r, auc := a\<rparr>) c s color fold_index X_test y_test y_pred
         = binary_branch env c s color fold_index X_test y_test y_pred"
  using assms by (simp add: binary_branch_def rbind_def Let_def split: sum.splits)

lemma evaluate_fold_roc_unused:
  assumes "binary_class c"
    and "evaluate_fold env c s fold_index (train_index, test_index) =
           Inr (c_fold, s_fold, evs_fold)"
    and "np_take (self_X c) test_index = Inr X_test"
    and "np_take (self_y c) test_index = Inr y_test"
    and "predict_proba env (classifier c_fold) X_test = Inr probs"
    and "column1 probs = Inr y_prob"
    and "length y_test \<noteq> length y_prob"
  shows "evaluate_fold (env\<lparr>roc_curve := r, auc := a\<rparr>) c s fold_index (train_index, test_index)
         = Inr (c_fold, s_fold, evs_fold)"
proof -
  from assms(2) obtain X_train X_test' y_train y_test' y_pred where
    a: "np_take (self_X c) train_index = Inr X_train" and
    b: "np_take (self_X c) test_index = Inr X_test'" and
    d: "np_take (self_y c) train_index = Inr y_train" and
    e: "np_take (self_y c) test_index = Inr y_test'" and
    t: "train env (snd (next_color c)) (Some X_train) (Some y_train)
        = Inr (c_fold, classifier c_fold)" and
    cc: "c_fold = c\<lparr>colors := colors c + 1, classifier := classifier c_fold\<rparr>" and
    pd: "predict env (classifier c_fold) X_test' = Inr y_pred" and
    br: "(if binary_class c
          then binary_branch env c_fold s (fst (next_color c)) fold_index X_test' y_test' y_pred
          else macro_branch env s y_test' y_pred) = Inr (s_fold, evs_fold)"
    by (rule evaluate_fold_Inr)
  from b e assms(3,4) have same: "X_test' = X_test" "y_test' = y_test" by simp_all
  have bc: "binary_class c_fold" by (subst cc) (simp add: assms(1))
  from br assms(1) same have
    "binary_branch env c_fold s (fst (next_color c)) fold_index X_test y_test y_pred
     = Inr (s_fold, evs_fold)" by simp
  with binary_branch_roc_unused [OF assms(5,6,7)] have br':
    "binary_branch (env\<lparr>roc_curve := r, auc := a\<rparr>) c_fold s (fst (next_color c)) fold_index
       X_test y_test y_pred = Inr (s_fold, evs_fold)" by simp
  from pd same have pd': "predict env (classifier c_fold) X_test = Inr y_pred" by simp
  show ?thesis
    unfolding evaluate_fold_unfold train_roc_unused
    using a assms(3,4) d t pd' bc br' by (simp add: rbind_def)
qed

text \<open>
  Claim C4.  In a binary-mode fold that completes, accuracy, recall, precision and F1 are
  computed, summed and logged in any case.  If the number of test labels equals the number
  of probability scores, the ROC curve and the AUC are computed, the AUC is added to its
  sum, logged and plotted.  Otherwise the AUC sum is unchanged, nothing more is logged, and
  neither \<open>roc_curve\<close> nor \<open>auc\<close> is computed: the fold completes with the same object,
  sums and events whatever these two functions are, also when they raise.
\<close>

theorem evaluate_binary_fold_auc_iff_lengths_agree:
  assumes "binary_class c"
    and "evaluate_fold env c s fold_index (train_index, test_index) =
           Inr (c_fold, s_fold, evs_fold)"
  shows "\<exists>X_test y_test y_pred probs y_prob accuracy recall precision f1.
     np_take (self_X c) test_index = Inr X_test \<and>
     np_take (self_y c) test_index = Inr y_test \<and>
     length y_test = length test_index \<and>
     predict env (classifier c_fold) X_test = Inr y_pred \<and>
     predict_proba env (classifier c_fold) X_test = Inr probs \<and>
     column1 probs = Inr y_prob \<and>
     length y_prob = length probs \<and>
     accuracy_score env y_test y_pred = Inr accuracy \<and>
     recall_score env y_test y_pred Binary = Inr recall \<and>
     precision_score env y_test y_pred Binary = Inr precision \<and>
     f1_score env y_test y_pred Binary = Inr f1 \<and>
     accuracy_sum s_fold = accuracy_sum s + accuracy \<and>
     recall_sum s_fold = recall_sum s + recall \<and>
     precision_sum s_fold = precision_sum s + precision \<and>
     f1_sum s_fold = f1_sum s + f1 \<and>
     take 4 evs_fold =
       [Info ''Accuracy: %.2f'' [accuracy], Info ''Recall: %.2f'' [recall],
        Info ''Precision: %.2f'' [precision], Info ''F-measure: %.2f'' [f1]] \<and>
     (if length y_test = length y_prob
      then \<exists>fpr tpr thresholds roc_auc.
             roc_curve env y_test y_prob = Inr (fpr, tpr, thresholds) \<and>
             auc env fpr tpr = Inr roc_auc \<and>
             roc_auc_sum s_fold = roc_auc_sum s + roc_auc \<and>
             drop 4 evs_fold =
               [Info ''AUC: %.2f'' [roc_auc],
                Plot fpr tpr (line_width c) (palette ! (colors c mod 6)) fold_index roc_auc]
      else roc_auc_sum s_fold = roc_auc_sum s \<and> drop 4 evs_fold = [] \<and>
           evaluate_fold (env\<lparr>roc_curve := r, auc := a\<rparr>) c s fold_index
             (train_index, test_index) = Inr (c_fold, s_fold, evs_fold))"
proof -
  from assms(2) obtain X_test y_test y_pred where
    X: "np_take (self_X c) test_index = Inr X_test" and
    y: "np_take (self_y c) test_index = Inr y_test" and
    c: "c_fold = c\<lparr>colors := colors c + 1, classifier := classifier c_fold\<rparr>" and
    p: "predict env (classifier c_fold) X_test = Inr y_pred" and
    br: "(if binary_class c
          then binary_branch env c_fold s (fst (next_color c)) fold_index X_test y_test y_pred
          else macro_branch env s y_test y_pred) = Inr (s_fold, evs_fold)"
    by (rule evaluate_fold_Inr)
  from br assms(1) have
    b: "binary_branch env c_fold s (palette ! (colors c mod 6)) fold_index X_test y_test y_pred
        = Inr (s_fold, evs_fold)"
    by (simp add: next_color_def)
  have lw: "line_width c_fold = line_width c" by (subst c) simp
  from y have ly: "length y_test = length test_index" by (rule np_take_length)
  from b show ?thesis
  proof (rule binary_branch_Inr)
    fix accuracy recall precision f1 probs y_prob
    assume m: "accuracy_score env y_test y_pred = Inr accuracy"
      "recall_score env y_test y_pred Binary = Inr recall"
      "precision_score env y_test y_pred Binary = Inr precision"
      "f1_score env y_test y_pred Binary = Inr f1"
    and pr: "predict_proba env (classifier c_fold) X_test = Inr probs"
    and col: "column1 probs = Inr y_prob"
    and sums: "accuracy_sum s_fold = accuracy_sum s + accuracy"
      "recall_sum s_fold = recall_sum s + recall"
      "precision_sum s_fold = precision_sum s + precision"
      "f1_sum s_fold = f1_sum s + f1"
    and eq: "length y_test = length y_prob \<longrightarrow>
       (\<exists>fpr tpr thresholds roc_auc.
          roc_curve env y_test y_prob = Inr (fpr, tpr, thresholds) \<and>
          auc env fpr tpr = Inr roc_auc \<and>
          roc_auc_sum s_fold = roc_auc_sum s + roc_auc \<and>
          evs_fold = [Info ''Accuracy: %.2f'' [accuracy], Info ''Recall: %.2f'' [recall],
                 Info ''Precision: %.2f'' [precision], Info ''F-measure: %.2f'' [f1],
                 Info ''AUC: %.2f'' [roc_auc],
                 Plot fpr tpr (line_width c_fold) (palette ! (colors c mod 6)) fold_index
                   roc_auc])"
    and ne: "length y_test \<noteq> length y_prob \<longrightarrow>
       roc_auc_sum s_fold = roc_auc_sum s \<and>
       evs_fold = [Info ''Accuracy: %.2f'' [accuracy], Info ''Recall: %.2f'' [recall],
              Info ''Precision: %.2f'' [precision], Info ''F-measure: %.2f'' [f1]]"
    from col have lp: "length y_prob = length probs" by (rule column1_length)
    have tail: "take 4 evs_fold =
       [Info ''Accuracy: %.2f'' [accuracy], Info ''Recall: %.2f'' [recall],
        Info ''Precision: %.2f'' [precision], Info ''F-measure: %.2f'' [f1]] \<and>
     (if length y_test = length y_prob
      then \<exists>fpr tpr thresholds roc_auc.
             roc_curve env y_test y_prob = Inr (fpr, tpr, thresholds) \<and>
             auc env fpr tpr = Inr roc_auc \<and>
             roc_auc_sum s_fold = roc_auc_sum s + roc_auc \<and>
             drop 4 evs_fold =
               [Info ''AUC: %.2f'' [roc_auc],
                Plot fpr tpr (line_width c) (palette ! (colors c mod 6)) fold_index roc_auc]
      else roc_auc_sum s_fold = roc_auc_sum s \<and> drop 4 evs_fold = [] \<and>
           evaluate_fold (env\<lparr>roc_curve := r, auc := a\<rparr>) c s fold_index
             (train_index, test_index) = Inr (c_fold, s_fold, evs_fold))"
    proof (cases "length y_test = length y_prob")
      case True
      with eq obtain fpr tpr thresholds roc_auc where
        "roc_curve env y_test y_prob = Inr (fpr, tpr, thresholds)"
        "auc env fpr tpr = Inr roc_auc"
        "roc_auc_sum s_fold = roc_auc_sum s + roc_auc"
        "evs_fold = [Info ''Accuracy: %.2f'' [accuracy], Info ''Recall: %.2f'' [recall],
                 Info ''Precision: %.2f'' [precision], Info ''F-measure: %.2f'' [f1],
                 Info ''AUC: %.2f'' [roc_auc],
                 Plot fpr tpr (line_width c_fold) (palette ! (colors c mod 6)) fold_index
                   roc_auc]"
        by blast
      with True lw show ?thesis by simp
    next
      case False
      note evaluate_fold_roc_unused [OF assms(1,2) X y pr col False]
      with ne False show ?thesis by simp
    qed
    from X y ly p pr col lp m sums tail show ?thesis by blast
  qed
qed

theorem evaluate_binary_fold_auc_iff_lengths_agree_witness:
  "binary_class (example ''svm'' True) \<and>
   evaluate_fold (strict_roc_env uneven3) (example ''svm'' True) zero_sums 1
       ([2, 3, 4, 5], [0, 1]) =
     Inr ((example ''svm'' True)
            \<lparr>colors := 1,
             classifier := (SVC [(''class_weight'', PyStr ''balanced''),
                                 (''probability'', PyBool True)],
                            Some (Some [[2], [3], [4], [5]], Some [- 1, 1, - 3, 0]))\<rparr>,
          \<lparr>accuracy_sum = 1 / 2, recall_sum = 1 / 2, precision_sum = 1 / 2, f1_sum = 1 / 2,
             roc_auc_sum = 1 / 2\<rparr>,
          [Info ''Accuracy: %.2f'' [1 / 2], Info ''Recall: %.2f'' [1 / 2],
           Info ''Precision: %.2f'' [1 / 2], Info ''F-measure: %.2f'' [1 / 2],
           Info ''AUC: %.2f'' [1 / 2], Plot [0, 1] [0, 1] 2 ''cyan'' 1 (1 / 2)]) \<and>
   evaluate_fold (strict_roc_env uneven3) (example ''svm'' True) zero_sums 1
       ([0, 1, 5], [2, 3, 4]) =
     Inr ((example ''svm'' True)
            \<lparr>colors := 1,
             classifier := (SVC [(''class_weight'', PyStr ''balanced''),
                                 (''probability'', PyBool True)],
                            Some (Some [[0], [1], [5]], Some [0, 1, 0]))\<rparr>,
          \<lparr>accuracy_sum = 1 / 3, recall_sum = 1 / 3, precision_sum = 1 / 3, f1_sum = 1 / 3,
             roc_auc_sum = 0\<rparr>,
          [Info ''Accuracy: %.2f'' [1 / 3], Info ''Recall: %.2f'' [1 / 3],
           Info ''Precision: %.2f'' [1 / 3], Info ''F-measure: %.2f'' [1 / 3]]) \<and>
   roc_curve (strict_roc_env uneven3) [- 1, 1, - 3] [3 / 4, 3 / 4] = Inl ValueError \<and>
   evaluate_fold
       ((strict_roc_env uneven3)
          \<lparr>roc_curve := (\<lambda>y_true y_score. Inl ValueError),
           auc := (\<lambda>fpr tpr. Inl ValueError)\<rparr>)
       (example ''svm'' True) zero_sums 1 ([0, 1, 5], [2, 3, 4]) =
     Inr ((example ''svm'' True)
            \<lparr>colors := 1,
             classifier := (SVC [(''class_weight'', PyStr ''balanced''),
                                 (''probability'', PyBool True)],
                            Some (Some [[0], [1], [5]], Some [0, 1, 0]))\<rparr>,
          \<lparr>accuracy_sum = 1 / 3, recall_sum = 1 / 3, precision_sum = 1 / 3, f1_sum = 1 / 3,
             roc_auc_sum = 0\<rparr>,
          [Info ''Accuracy: %.2f'' [1 / 3], Info ''Recall: %.2f'' [1 / 3],
           Info ''Precision: %.2f'' [1 / 3], Info ''F-measure: %.2f'' [1 / 3]])"
proof -
  have b: "binary_class (example ''svm'' True)" by (simp add: example_def)
  have fold0: "evaluate_fold (strict_roc_env uneven3) (example ''svm'' True) zero_sums 1
       ([2, 3, 4, 5], [0, 1]) =
     Inr ((example ''svm'' True)
            \<lparr>colors := 1,
             classifier := (SVC [(''class_weight'', PyStr ''balanced''),
                                 (''probability'', PyBool True)],
                            Some (Some [[2], [3], [4], [5]], Some [- 1, 1, - 3, 0]))\<rparr>,
          \<lparr>accuracy_sum = 1 / 2, recall_sum = 1 / 2, precision_sum = 1 / 2, f1_sum = 1 / 2,
             roc_auc_sum = 1 / 2\<rparr>,
          [Info ''Accuracy: %.2f'' [1 / 2], Info ''Recall: %.2f'' [1 / 2],
           Info ''Precision: %.2f'' [1 / 2], Info ''F-measure: %.2f'' [1 / 2],
           Info ''AUC: %.2f'' [1 / 2], Plot [0, 1] [0, 1] 2 ''cyan'' 1 (1 / 2)])"
    by (simp add: run_defs strict_roc_env_def example_def)
  have fold1: "evaluate_fold (strict_roc_env uneven3) (example ''svm'' True) zero_sums 1
       ([0, 1, 5], [2, 3, 4]) =
     Inr ((example ''svm'' True)
            \<lparr>colors := 1,
             classifier := (SVC [(''class_weight'', PyStr ''balanced''),
                                 (''probability'', PyBool True)],
                            Some (Some [[0], [1], [5]], Some [0, 1, 0]))\<rparr>,
          \<lparr>accuracy_sum = 1 / 3, recall_sum = 1 / 3, precision_sum = 1 / 3, f1_sum = 1 / 3,
             roc_auc_sum = 0\<rparr>,
          [Info ''Accuracy: %.2f'' [1 / 3], Info ''Recall: %.2f'' [1 / 3],
           Info ''Precision: %.2f'' [1 / 3], Info ''F-measure: %.2f'' [1 / 3]])"
    by (simp add: run_defs strict_roc_env_def example_def)
  have raises: "roc_curve (strict_roc_env uneven3) [- 1, 1, - 3] [3 / 4, 3 / 4] = Inl ValueError"
    by (simp add: strict_roc_env_def two_rows_env_def spy_env_def)
  have differ: "np_take (self_y (example ''svm'' True)) [2, 3, 4] = Inr [- 1, 1, - 3] \<and>
                column1 [[1 / 4, 3 / 4], [1 / 4, 3 / 4]] = Inr [3 / 4, 3 / 4]"
    by (simp add: example_def rbind_def np_get_def column1_def)
  have proba: "predict_proba (strict_roc_env uneven3)
                 (classifier ((example ''svm'' True)
            \<lparr>colors := 1,
             classifier := (SVC [(''class_weight'', PyStr ''balanced''),
                                 (''probability'', PyBool True)],
                            Some (Some [[0], [1], [5]], Some [0, 1, 0]))\<rparr>))
                 [[2], [3], [4]] = Inr [[1 / 4, 3 / 4], [1 / 4, 3 / 4]]"
    by (simp add: strict_roc_env_def two_rows_env_def spy_env_def)
  have X: "np_take (self_X (example ''svm'' True)) [2, 3, 4] = Inr [[2], [3], [4]]"
    by (simp add: example_def rbind_def np_get_def)
  from evaluate_binary_fold_auc_iff_lengths_agree [OF b fold1, where r = "\<lambda>y_true y_score. Inl ValueError"
      and a = "\<lambda>fpr tpr. Inl ValueError"] differ proba X
  have indep: "evaluate_fold
       ((strict_roc_env uneven3)
          \<lparr>roc_curve := (\<lambda>y_true y_score. Inl ValueError),
           auc := (\<lambda>fpr tpr. Inl ValueError)\<rparr>)
       (example ''svm'' True) zero_sums 1 ([0, 1, 5], [2, 3, 4]) =
     Inr ((example ''svm'' True)
            \<lparr>colors := 1,
             classifier := (SVC [(''class_weight'', PyStr ''balanced''),
                                 (''probability'', PyBool True)],
                            Some (Some [[0], [1], [5]], Some [0, 1, 0]))\<rparr>,
          \<lparr>accuracy_sum = 1 / 3, recall_sum = 1 / 3, precision_sum = 1 / 3, f1_sum = 1 / 3,
             roc_auc_sum = 0\<rparr>,
          [Info ''Accuracy: %.2f'' [1 / 3], Info ''Recall: %.2f'' [1 / 3],
           Info ''Precision: %.2f'' [1 / 3], Info ''F-measure: %.2f'' [1 / 3]])"
    by auto
  from evaluate_binary_fold_auc_iff_lengths_agree [OF b fold0] b fold0 fold1 raises indep
  show ?thesis by blast
qed

subsection \<open>The fold planner\<close>

text \<open>
  The module inspects neither the labels nor the fold count before it plans the folds, and
  it handles no exception: whatever the planner of the library raises ends
  \<^verbatim>\<open>evaluate\<close> and the generator of \<^verbatim>\<open>cross_validate\<close> before the first fold.
\<close>

lemma planner_error_propagates:
  assumes "kfold_split env (cv c) (self_X c) (self_y c) = Inl e"
  shows "evaluate env c = Inl e" and "cross_validate env c = ([], Some e, c)"
  using assms by (simp_all add: evaluate_def cross_validate_def rbind_def)

end
